theory Spec2Isabelle
  imports Complex_Main "HOL-Library.Sublist" "HOL-Library.Word"
begin

section \<open>The face-swap client (class FaceSwapAPI)\<close>

text \<open>
  A shallow embedding of the client class \<open>FaceSwapAPI\<close>: its image validator, its image
  pipeline (\<open>processImage\<close>, \<open>getUploadUrl\<close>, \<open>uploadImageToS3\<close>), the job submission
  (\<open>requestFaceSwap\<close>), the status poller (\<open>pollFaceSwapStatus\<close>) and the orchestration
  (\<open>performFaceSwap\<close>).

  Conventions of the embedding.
  \<^item> A JavaScript string is a \<open>string\<close>; a \<open>Buffer\<close> is a list of bytes.
  \<^item> JavaScript numbers are IEEE doubles. The counters of \<open>this.stats\<close> are modelled as
    natural numbers, times read from \<open>Date.now()\<close> as integers, and the two quantities
    that the code computes with fractional arithmetic (the running average and the
    waiting times) as real numbers: rounding of doubles is not modelled.
  \<^item> A thrown \<open>Error\<close> is a value \<open>JsError name message\<close>; an \<open>async\<close> method returns
    \<open>Inl\<close> of the error it rejects with or \<open>Inr\<close> of the value it resolves to.
  \<^item> Methods whose JavaScript name starts with an underscore drop it
    (\<open>_validateImageBuffer\<close> is \<open>validateImageBuffer\<close>).
\<close>

subsection \<open>Strings\<close>

text \<open>\<open>s.includes(t)\<close>: \<open>t\<close> occurs in \<open>s\<close> as a contiguous substring.\<close>

fun str_includes :: "string \<Rightarrow> string \<Rightarrow> bool" where
  "str_includes [] t = (t = [])"
| "str_includes (c # s) t = (prefix t (c # s) \<or> str_includes s t)"

text \<open>Decimal rendering of a non-negative integer, as a template literal prints it.\<close>

definition digit :: "nat \<Rightarrow> char" where
  "digit d = ''0123456789'' ! d"

function show_nat :: "nat \<Rightarrow> string" where
  "show_nat n = (if n < 10 then [digit n] else show_nat (n div 10) @ [digit (n mod 10)])"
  by pat_completeness auto
termination
  by (relation "measure id") auto

declare show_nat.simps [simp del]

text \<open>\<open>xs.join(sep)\<close> on an array of strings.\<close>

fun join :: "string \<Rightarrow> string list \<Rightarrow> string" where
  "join sep [] = []"
| "join sep [x] = x"
| "join sep (x # y # ys) = x @ sep @ join sep (y # ys)"

subsection \<open>Constants set by the constructor\<close>

definition MAX_RETRIES :: nat where
  "MAX_RETRIES = 5"

definition POLL_INTERVAL :: nat where
  "POLL_INTERVAL = 3000"

definition MAX_FILE_SIZE :: nat where
  "MAX_FILE_SIZE = 5 * 1024 * 1024"

definition SUPPORTED_FORMATS :: "string list" where
  "SUPPORTED_FORMATS = [''image/jpeg'', ''image/jpg'', ''image/png'']"

subsection \<open>Image validation\<close>

type_synonym byte = "8 word"

type_synonym buffer = "byte list"

text \<open>\<open>buffer[i]\<close>: the byte at index \<open>i\<close>, or \<open>undefined\<close> (here \<open>None\<close>) past the end.\<close>

definition byte_at :: "buffer \<Rightarrow> nat \<Rightarrow> byte option" where
  "byte_at b i = (if i < length b then Some (b ! i) else None)"

text \<open>
  The entries that \<open>_validateImageBuffer\<close> pushes on its \<open>errors\<close> array. Each constructor
  stands for one of the four message templates; \<open>violation_text\<close> is the string pushed.
\<close>

datatype violation =
    Oversize nat nat
  | Undersize nat
  | UnsupportedFormat string
  | CorruptData

fun violation_text :: "violation \<Rightarrow> string" where
  "violation_text (Oversize n m) =
     ''Image size '' @ show_nat n @ '' bytes exceeds maximum allowed size of '' @ show_nat m
       @ '' bytes (5MB)''"
| "violation_text (Undersize n) =
     ''Image size '' @ show_nat n @ '' bytes is too small. Minimum size is 1KB''"
| "violation_text (UnsupportedFormat ct) =
     ''Unsupported image format: '' @ ct @ ''. Supported formats: ''
       @ join '', '' SUPPORTED_FORMATS"
| "violation_text CorruptData = ''Invalid image file format or corrupted image data''"

text \<open>The two entries that report the size of the buffer.\<close>

fun is_size_violation :: "violation \<Rightarrow> bool" where
  "is_size_violation (Oversize n m) = True"
| "is_size_violation (Undersize n) = True"
| "is_size_violation (UnsupportedFormat ct) = False"
| "is_size_violation CorruptData = False"

record validation =
  isValid :: bool
  errors :: "violation list"

definition isValidImageBuffer :: "buffer \<Rightarrow> string \<Rightarrow> bool" where
  "isValidImageBuffer b contentType =
     (if length b < 4 then False
      else
        let jpg1 = (byte_at b 0 = Some 0xff \<and> byte_at b 1 = Some 0xd8 \<and> byte_at b 2 = Some 0xff);
            png = (byte_at b 0 = Some 0x89 \<and> byte_at b 1 = Some 0x50
                    \<and> byte_at b 2 = Some 0x4e \<and> byte_at b 3 = Some 0x47)
        in if str_includes contentType ''jpeg'' \<or> str_includes contentType ''jpg'' then jpg1
           else if str_includes contentType ''png'' then png
           else jpg1 \<or> png)"

definition validateImageBuffer :: "buffer \<Rightarrow> string \<Rightarrow> validation" where
  "validateImageBuffer imageBuffer contentType =
     (let errors0 = [];
          errors1 = (if length imageBuffer > MAX_FILE_SIZE
                     then errors0 @ [Oversize (length imageBuffer) MAX_FILE_SIZE] else errors0);
          errors2 = (if length imageBuffer < 1024
                     then errors1 @ [Undersize (length imageBuffer)] else errors1);
          errors3 = (if \<not> List.member SUPPORTED_FORMATS contentType
                     then errors2 @ [UnsupportedFormat contentType] else errors2);
          isValidImage = isValidImageBuffer imageBuffer contentType;
          errors4 = (if \<not> isValidImage then errors3 @ [CorruptData] else errors3)
      in \<lparr> isValid = (length errors4 = 0), errors = errors4 \<rparr>)"

subsection \<open>Errors, promises and HTTP responses\<close>

datatype js_error = JsError (err_name: string) (err_message: string)

text \<open>How an awaited promise settles.\<close>

datatype 'a outcome = Rejects js_error | Resolves 'a

text \<open>
  The parsed JSON of a reply of the remote service, reduced to the fields the client reads.
  A field is \<open>None\<close> when it is absent (\<open>undefined\<close>); a field that is present holds a
  value of the type the service documents for it: a string, an integer for \<open>statusCode\<close>,
  a size in bytes for \<open>size\<close>. JSON that is not an object has every field absent. The
  \<open>body\<close> of the three endpoints is one record; its field \<open>output\<close> is named
  \<open>body_output\<close> here.
\<close>

record api_body =
  status :: "string option"
  body_output :: "string option"
  orderId :: "string option"
  uploadImage :: "string option"
  imageUrl :: "string option"
  size :: "nat option"

record api_data =
  statusCode :: "int option"
  body :: "api_body option"
  message :: "string option"

text \<open>
  A response of \<open>fetch\<close>: the status line, how \<open>response.text()\<close>, \<open>response.json()\<close>
  and \<open>response.buffer()\<close> settle when they are called, and the content-type header.
  \<open>response.json()\<close> resolving to \<open>None\<close> is the JSON value \<open>null\<close>.
\<close>

record response =
  http_status :: nat
  statusText :: string
  text_result :: "string outcome"
  json_result :: "api_data option outcome"
  buffer_result :: "buffer outcome"
  content_type_header :: "string option"

text \<open>\<open>response.ok\<close>: the status is in the range 200 to 299.\<close>

definition ok :: "response \<Rightarrow> bool" where
  "ok r \<longleftrightarrow> 200 \<le> http_status r \<and> http_status r \<le> 299"

text \<open>Truthiness of an optional string: \<open>undefined\<close> and the empty string are falsy.\<close>

fun truthy :: "string option \<Rightarrow> bool" where
  "truthy None = False"
| "truthy (Some s) = (s \<noteq> [])"

text \<open>\<open>data.body?.status\<close>, \<open>data.body?.output\<close> and the like.\<close>

definition body_field :: "(api_body \<Rightarrow> 'a option) \<Rightarrow> api_data \<Rightarrow> 'a option" where
  "body_field f data = (case body data of None \<Rightarrow> None | Some b \<Rightarrow> f b)"

text \<open>The \<open>TypeError\<close> of reading a property of \<open>null\<close>.\<close>

definition null_read :: "string \<Rightarrow> js_error" where
  "null_read prop =
     JsError ''TypeError'' (''Cannot read properties of null (reading '' @ [CHR 0x27] @ prop
       @ [CHR 0x27] @ '')'')"

subsection \<open>The environment of the client\<close>

text \<open>
  Everything outside the class: the remote service, the file system, the clock and the
  library functions. A request that runs into the \<open>AbortController\<close> timeout rejects with
  an error named \<open>AbortError\<close>. The status endpoint is asked once per attempt, so its
  reply depends on the order id and on the number of the attempt.
\<close>

record env =
  fetch_image :: "string \<Rightarrow> response outcome"
  existsSync :: "string \<Rightarrow> bool"
  readFileSync :: "string \<Rightarrow> buffer outcome"
  extname_lower :: "string \<Rightarrow> string"
  post_uploadImageUrl :: "nat \<Rightarrow> string \<Rightarrow> response outcome"
  put_upload :: "string \<Rightarrow> buffer \<Rightarrow> string \<Rightarrow> response outcome"
  post_face_swap :: "string \<Rightarrow> string \<Rightarrow> response outcome"
  post_order_status :: "string \<Rightarrow> nat \<Rightarrow> response outcome"
  stringify :: "api_data option \<Rightarrow> string"
  start_time :: int
  now_at :: "nat \<Rightarrow> int"
  source_rejects_first :: bool

subsection \<open>The state of the client\<close>

record stats =
  totalRequests :: nat
  successfulSwaps :: nat
  failedSwaps :: nat
  averageProcessingTime :: real

text \<open>
  What the submitter and the poller do to the outside, in order: each entry of the trace is
  an action together with the counters as they stand when the action starts.
\<close>

datatype event =
    Submit string string
  | StatusCheck string
  | Sleep real

record client =
  stats :: stats
  trace :: "(event \<times> stats) list"

definition emit :: "event \<Rightarrow> client \<Rightarrow> client" where
  "emit ev c = c\<lparr>trace := trace c @ [(ev, stats c)]\<rparr>"

definition bump_totalRequests :: "client \<Rightarrow> client" where
  "bump_totalRequests c = c\<lparr>stats := (stats c)\<lparr>totalRequests := totalRequests (stats c) + 1\<rparr>\<rparr>"

definition bump_successfulSwaps :: "client \<Rightarrow> client" where
  "bump_successfulSwaps c =
     c\<lparr>stats := (stats c)\<lparr>successfulSwaps := successfulSwaps (stats c) + 1\<rparr>\<rparr>"

definition bump_failedSwaps :: "client \<Rightarrow> client" where
  "bump_failedSwaps c = c\<lparr>stats := (stats c)\<lparr>failedSwaps := failedSwaps (stats c) + 1\<rparr>\<rparr>"

definition set_averageProcessingTime :: "real \<Rightarrow> client \<Rightarrow> client" where
  "set_averageProcessingTime x c = c\<lparr>stats := (stats c)\<lparr>averageProcessingTime := x\<rparr>\<rparr>"

definition fresh_stats :: stats where
  "fresh_stats =
     \<lparr> totalRequests = 0, successfulSwaps = 0, failedSwaps = 0, averageProcessingTime = 0 \<rparr>"

definition resetStats :: "client \<Rightarrow> client" where
  "resetStats c = c\<lparr>stats := fresh_stats\<rparr>"

subsection \<open>The image pipeline\<close>

text \<open>
  The value \<open>getUploadUrl\<close> returns; its field \<open>processingTime\<close>, which nothing reads, is
  left out.
\<close>

record upload_info =
  uploadUrl :: string
  info_imageUrl :: string
  info_size :: "nat option"

text \<open>The \<open>try\<close> block of \<open>getUploadUrl\<close>.\<close>

definition getUploadUrl_try :: "env \<Rightarrow> buffer \<Rightarrow> string \<Rightarrow> js_error + upload_info" where
  "getUploadUrl_try e imageBuffer contentType =
     (let validation = validateImageBuffer imageBuffer contentType in
      if \<not> isValid validation then
        Inl (JsError ''Error''
          (''Image validation failed: '' @ join '', '' (map violation_text (errors validation))))
      else
        case post_uploadImageUrl e (length imageBuffer) contentType of
          Rejects err \<Rightarrow> Inl err
        | Resolves response \<Rightarrow>
            if \<not> ok response then
              (case text_result response of
                 Rejects err \<Rightarrow> Inl err
               | Resolves errorText \<Rightarrow>
                   if http_status response = 403 then
                     Inl (JsError ''Error''
                       (''API Authentication Failed (403). Please verify your LightX API key has Face Swap permissions and your account has sufficient credits. Response: ''
                          @ errorText))
                   else if http_status response = 429 then
                     Inl (JsError ''Error''
                       (''Rate limit exceeded (429). Please wait before making additional requests. Response: ''
                          @ errorText))
                   else if http_status response = 402 then
                     Inl (JsError ''Error''
                       (''Payment required (402). Please check your account balance and billing status. Response: ''
                          @ errorText))
                   else
                     Inl (JsError ''Error''
                       (''Failed to get upload URL: '' @ show_nat (http_status response) @ '' - ''
                          @ errorText)))
            else
              (case json_result response of
                 Rejects err \<Rightarrow> Inl err
               | Resolves None \<Rightarrow> Inl (null_read ''statusCode'')
               | Resolves (Some data) \<Rightarrow>
                   if statusCode data = Some 2000 \<and> truthy (body_field uploadImage data)
                      \<and> truthy (body_field imageUrl data)
                   then Inr \<lparr> uploadUrl = the (body_field uploadImage data),
                              info_imageUrl = the (body_field imageUrl data),
                              info_size = body_field size data \<rparr>
                   else Inl (JsError ''Error''
                          (''Invalid upload URL response: '' @ stringify e (Some data)))))"

definition getUploadUrl :: "env \<Rightarrow> buffer \<Rightarrow> string \<Rightarrow> js_error + upload_info" where
  "getUploadUrl e imageBuffer contentType =
     (case getUploadUrl_try e imageBuffer contentType of
        Inr info \<Rightarrow> Inr info
      | Inl error \<Rightarrow>
          if err_name error = ''AbortError'' then
            Inl (JsError ''Error''
              ''Upload URL request timed out. Please check your internet connection and try again.'')
          else Inl error)"

text \<open>The \<open>try\<close> block of \<open>uploadImageToS3\<close>.\<close>

definition uploadImageToS3_try :: "env \<Rightarrow> string \<Rightarrow> buffer \<Rightarrow> string \<Rightarrow> js_error + unit" where
  "uploadImageToS3_try e url imageBuffer contentType =
     (case put_upload e url imageBuffer contentType of
        Rejects err \<Rightarrow> Inl err
      | Resolves response \<Rightarrow>
          if \<not> ok response then
            Inl (JsError ''Error''
              (''S3 upload failed: '' @ show_nat (http_status response) @ '' - ''
                 @ statusText response))
          else Inr ())"

definition uploadImageToS3 :: "env \<Rightarrow> string \<Rightarrow> buffer \<Rightarrow> string \<Rightarrow> js_error + unit" where
  "uploadImageToS3 e url imageBuffer contentType =
     (case uploadImageToS3_try e url imageBuffer contentType of
        Inr u \<Rightarrow> Inr u
      | Inl error \<Rightarrow>
          if err_name error = ''AbortError'' then
            Inl (JsError ''Error''
              ''S3 upload timed out. Please try again with a smaller image or check your internet connection.'')
          else Inl (JsError ''Error'' (''Failed to upload to S3: '' @ err_message error)))"

text \<open>
  The first half of \<open>processImage\<close>: the bytes of the image and its content type, from a
  URL or from a local file.
\<close>

definition acquire :: "env \<Rightarrow> string \<Rightarrow> bool \<Rightarrow> js_error + buffer \<times> string" where
  "acquire e imageSource isUrl =
     (if isUrl then
        (case fetch_image e imageSource of
           Rejects err \<Rightarrow> Inl err
         | Resolves imageResponse \<Rightarrow>
             if \<not> ok imageResponse then
               Inl (JsError ''Error''
                 (''Failed to fetch image from URL: '' @ show_nat (http_status imageResponse)
                    @ '' - '' @ statusText imageResponse))
             else
               (case buffer_result imageResponse of
                  Rejects err \<Rightarrow> Inl err
                | Resolves imageBuffer \<Rightarrow>
                    Inr (imageBuffer,
                         if truthy (content_type_header imageResponse)
                         then the (content_type_header imageResponse) else ''image/jpeg'')))
      else if \<not> existsSync e imageSource then
        Inl (JsError ''Error'' (''File not found: '' @ imageSource))
      else
        (case readFileSync e imageSource of
           Rejects err \<Rightarrow> Inl err
         | Resolves imageBuffer \<Rightarrow>
             let ext = extname_lower e imageSource in
             if ext = ''.png'' then Inr (imageBuffer, ''image/png'')
             else if ext = ''.jpg'' \<or> ext = ''.jpeg'' then Inr (imageBuffer, ''image/jpeg'')
             else Inl (JsError ''Error''
                    (''Unsupported file extension: '' @ ext
                       @ ''. Please use .jpg, .jpeg, or .png files.''))))"

definition processImage :: "env \<Rightarrow> string \<Rightarrow> bool \<Rightarrow> js_error + string" where
  "processImage e imageSource isUrl =
     (case acquire e imageSource isUrl of
        Inl err \<Rightarrow> Inl err
      | Inr (imageBuffer, contentType) \<Rightarrow>
          (case getUploadUrl e imageBuffer contentType of
             Inl err \<Rightarrow> Inl err
           | Inr uploadInfo \<Rightarrow>
               (case uploadImageToS3 e (uploadUrl uploadInfo) imageBuffer contentType of
                  Inl err \<Rightarrow> Inl err
                | Inr u \<Rightarrow> Inr (info_imageUrl uploadInfo))))"

subsection \<open>Submission\<close>

text \<open>What the \<open>try\<close> block of \<open>requestFaceSwap\<close> does after it has sent the request.\<close>

definition requestFaceSwap_try :: "env \<Rightarrow> string \<Rightarrow> string \<Rightarrow> js_error + string" where
  "requestFaceSwap_try e sourceImageUrl targetImageUrl =
     (case post_face_swap e sourceImageUrl targetImageUrl of
        Rejects err \<Rightarrow> Inl err
      | Resolves response \<Rightarrow>
          if \<not> ok response then
            (case text_result response of
               Rejects err \<Rightarrow> Inl err
             | Resolves errorText \<Rightarrow>
                 if http_status response = 403 then
                   Inl (JsError ''Error''
                     (''Face Swap API access denied (403). Please check your subscription plan and ensure Face Swap API is enabled for your account. Response: ''
                        @ errorText))
                 else if http_status response = 402 then
                   Inl (JsError ''Error''
                     (''Insufficient credits (402). Please add credits to your LightX account. Response: ''
                        @ errorText))
                 else if http_status response = 400 then
                   Inl (JsError ''Error''
                     (''Invalid request (400). Please check that both images contain clear, visible faces. Response: ''
                        @ errorText))
                 else
                   Inl (JsError ''Error''
                     (''Face swap request failed: '' @ show_nat (http_status response) @ '' - ''
                        @ errorText)))
          else
            (case json_result response of
               Rejects err \<Rightarrow> Inl err
             | Resolves None \<Rightarrow> Inl (null_read ''statusCode'')
             | Resolves (Some data) \<Rightarrow>
                 if statusCode data = Some 2000 \<and> truthy (body_field orderId data)
                 then Inr (the (body_field orderId data))
                 else Inl (JsError ''Error'' (''Face swap failed: '' @ stringify e (Some data)))))"

definition requestFaceSwap ::
  "env \<Rightarrow> string \<Rightarrow> string \<Rightarrow> client \<Rightarrow> (js_error + string) \<times> client" where
  "requestFaceSwap e sourceImageUrl targetImageUrl c0 =
     (let c1 = bump_totalRequests c0;
          c2 = emit (Submit sourceImageUrl targetImageUrl) c1
      in case requestFaceSwap_try e sourceImageUrl targetImageUrl of
           Inr oid \<Rightarrow> (Inr oid, c2)
         | Inl error \<Rightarrow>
             (let c3 = bump_failedSwaps c2
              in if err_name error = ''AbortError''
                 then (Inl (JsError ''Error'' ''Face swap request timed out. Please try again.''), c3)
                 else (Inl error, c3)))"

subsection \<open>Polling\<close>

text \<open>
  How one pass through a block of the loop body ends: it falls through to the next
  iteration (also by \<open>continue\<close>: nothing follows the \<open>try\<close> statement in the loop body),
  returns from the method, or throws.
\<close>

datatype completion = Normal | Returned string | Thrown js_error

text \<open>
  The \<open>try\<close> block of the loop body, at attempt number \<open>attempt\<close>. \<open>Date.now()\<close> is read
  only on success, as \<open>now_at e attempt\<close>; the start time is \<open>start_time e\<close>.
\<close>

definition poll_try :: "env \<Rightarrow> string \<Rightarrow> nat \<Rightarrow> client \<Rightarrow> completion \<times> client" where
  "poll_try e oid attempt c0 =
     (let c = emit (StatusCheck oid) c0 in
      case post_order_status e oid attempt of
        Rejects err \<Rightarrow> (Thrown err, c)
      | Resolves response \<Rightarrow>
          if \<not> ok response then
            (case text_result response of
               Rejects err \<Rightarrow> (Thrown err, c)
             | Resolves errorText \<Rightarrow>
                 if attempt = MAX_RETRIES then
                   (Thrown (JsError ''Error''
                      (''Status polling failed after '' @ show_nat MAX_RETRIES @ '' attempts'')), c)
                 else
                   (let waitTime = min (real POLL_INTERVAL * 1.5 ^ attempt) 10000
                    in (Normal, emit (Sleep waitTime) c)))
          else
            (case json_result response of
               Rejects err \<Rightarrow> (Thrown err, c)
             | Resolves None \<Rightarrow> (Thrown (null_read ''statusCode''), c)
             | Resolves (Some data) \<Rightarrow>
                 if statusCode data = Some 2000 then
                   (let st = body_field status data in
                    if st = Some ''active'' \<and> truthy (body_field body_output data) then
                      (let totalTime = now_at e attempt - start_time e;
                           c1 = bump_successfulSwaps c;
                           c2 = set_averageProcessingTime
                                  ((averageProcessingTime (stats c1)
                                      * real (successfulSwaps (stats c1) - 1)
                                    + real_of_int totalTime)
                                   / real (successfulSwaps (stats c1))) c1
                       in (Returned (the (body_field body_output data)), c2))
                    else if st = Some ''failed'' then
                      (Thrown (JsError ''Error''
                         ''Face swap failed during processing. This may be due to unclear faces or incompatible images.''),
                       bump_failedSwaps c)
                    else if st = Some ''init'' then
                      (if attempt < MAX_RETRIES
                       then (Normal, emit (Sleep (real POLL_INTERVAL)) c)
                       else (Normal, c))
                    else (Normal, emit (Sleep (real POLL_INTERVAL)) c))
                 else
                   (Thrown (JsError ''Error''
                      (''Status check error: ''
                         @ (if truthy (message data) then the (message data)
                            else ''Unknown error''))), c)))"

text \<open>The \<open>catch\<close> block of the loop body.\<close>

definition poll_catch :: "nat \<Rightarrow> js_error \<Rightarrow> client \<Rightarrow> completion \<times> client" where
  "poll_catch attempt error c =
     (if attempt = MAX_RETRIES
         \<or> str_includes (err_message error) ''Face swap failed during processing''
      then (Thrown error, c)
      else
        (let waitTime = min (real POLL_INTERVAL * 1.2 ^ attempt) 8000
         in (Normal, emit (Sleep waitTime) c)))"

text \<open>One iteration: the \<open>try\<close> block, and the \<open>catch\<close> block when it throws.\<close>

definition poll_attempt :: "env \<Rightarrow> string \<Rightarrow> nat \<Rightarrow> client \<Rightarrow> completion \<times> client" where
  "poll_attempt e oid attempt c =
     (case poll_try e oid attempt c of
        (Thrown error, c') \<Rightarrow> poll_catch attempt error c'
      | (Normal, c') \<Rightarrow> (Normal, c')
      | (Returned v, c') \<Rightarrow> (Returned v, c'))"

text \<open>
  The \<open>for\<close> loop from \<open>attempt\<close> on, and the two statements after it. The quotient
  \<open>(MAX_RETRIES * POLL_INTERVAL) / 1000\<close> of the message is the integer 15.
\<close>

function poll_loop ::
  "env \<Rightarrow> string \<Rightarrow> nat \<Rightarrow> client \<Rightarrow> (js_error + string) \<times> client" where
  "poll_loop e oid attempt c =
     (if attempt \<le> MAX_RETRIES then
        (case poll_attempt e oid attempt c of
           (Returned v, c') \<Rightarrow> (Inr v, c')
         | (Thrown error, c') \<Rightarrow> (Inl error, c')
         | (Normal, c') \<Rightarrow> poll_loop e oid (attempt + 1) c')
      else
        (Inl (JsError ''Error''
           (''Face swap did not complete within '' @ show_nat MAX_RETRIES @ '' attempts (''
              @ show_nat (MAX_RETRIES * POLL_INTERVAL div 1000) @ '' seconds)'')),
         bump_failedSwaps c))"
  by pat_completeness auto
termination
  by (relation "measure (\<lambda>(e, oid, attempt, c). Suc MAX_RETRIES - attempt)") auto

declare poll_loop.simps [simp del]

definition pollFaceSwapStatus ::
  "env \<Rightarrow> string \<Rightarrow> client \<Rightarrow> (js_error + string) \<times> client" where
  "pollFaceSwapStatus e oid c = poll_loop e oid 1 c"

subsection \<open>Orchestration\<close>

text \<open>
  \<open>Promise.all\<close> of two promises: it resolves to both values, or rejects with the error of
  the promise that rejects first. Which of two rejections comes first is decided by the
  scheduling, here by the flag \<open>first\<close>.
\<close>

fun promise_all :: "bool \<Rightarrow> js_error + 'a \<Rightarrow> js_error + 'b \<Rightarrow> js_error + 'a \<times> 'b" where
  "promise_all first (Inr a) (Inr b) = Inr (a, b)"
| "promise_all first (Inl ea) (Inr b) = Inl ea"
| "promise_all first (Inr a) (Inl eb) = Inl eb"
| "promise_all first (Inl ea) (Inl eb) = Inl (if first then ea else eb)"

text \<open>
  The two image pipelines touch neither the counters nor the submission and status
  endpoints, so their requests, which interleave, are not part of the trace.
\<close>

definition performFaceSwap ::
  "env \<Rightarrow> string \<Rightarrow> string \<Rightarrow> bool \<Rightarrow> bool \<Rightarrow> client \<Rightarrow> (js_error + string) \<times> client" where
  "performFaceSwap e sourceImage targetImage sourceIsUrl targetIsUrl c =
     (case promise_all (source_rejects_first e)
             (processImage e sourceImage sourceIsUrl)
             (processImage e targetImage targetIsUrl) of
        Inl error \<Rightarrow> (Inl error, c)
      | Inr (sourceImageUrl, targetImageUrl) \<Rightarrow>
          (case requestFaceSwap e sourceImageUrl targetImageUrl c of
             (Inl error, c1) \<Rightarrow> (Inl error, c1)
           | (Inr oid, c1) \<Rightarrow> pollFaceSwapStatus e oid c1))"

subsection \<open>Vocabulary of the properties\<close>

text \<open>
  A reply to a status request is well-formed when the request resolved with a 2xx
  response whose JSON parsed to an object with \<open>statusCode\<close> 2000; \<open>envelope\<close> is that
  object.
\<close>

fun envelope :: "response outcome \<Rightarrow> api_data option" where
  "envelope (Rejects err) = None"
| "envelope (Resolves response) =
     (if ok response then
        (case json_result response of
           Rejects err \<Rightarrow> None
         | Resolves None \<Rightarrow> None
         | Resolves (Some data) \<Rightarrow> (if statusCode data = Some 2000 then Some data else None))
      else None)"

text \<open>
  The state in which attempt \<open>n + 1\<close> of a call of \<open>pollFaceSwapStatus\<close> starts. The call
  gets there when each of the attempts 1 to \<open>n\<close> falls through to the next iteration;
  otherwise the value is \<open>None\<close>.
\<close>

fun after_attempts :: "env \<Rightarrow> string \<Rightarrow> nat \<Rightarrow> client \<Rightarrow> client option" where
  "after_attempts e oid 0 c = Some c"
| "after_attempts e oid (Suc n) c =
     (case after_attempts e oid n c of
        None \<Rightarrow> None
      | Some c' \<Rightarrow>
          (case poll_attempt e oid (Suc n) c' of
             (Normal, c'') \<Rightarrow> Some c''
           | (Returned v, c'') \<Rightarrow> None
           | (Thrown error, c'') \<Rightarrow> None))"

text \<open>
  What one iteration of the poll loop may do to the two outcome counters, by the way it
  ends. A thrown error comes with an increment of \<open>failedSwaps\<close> only when its message
  marks it as the processing failure.
\<close>

definition counts_step :: "completion \<Rightarrow> client \<Rightarrow> client \<Rightarrow> bool" where
  "counts_step r c c' \<longleftrightarrow>
     (case r of
        Normal \<Rightarrow> successfulSwaps (stats c') = successfulSwaps (stats c)
                  \<and> failedSwaps (stats c') = failedSwaps (stats c)
      | Returned v \<Rightarrow> successfulSwaps (stats c') = successfulSwaps (stats c) + 1
                  \<and> failedSwaps (stats c') = failedSwaps (stats c)
      | Thrown err \<Rightarrow> successfulSwaps (stats c') = successfulSwaps (stats c)
                  \<and> (failedSwaps (stats c') = failedSwaps (stats c)
                      \<or> failedSwaps (stats c') = failedSwaps (stats c) + 1
                         \<and> str_includes (err_message err) ''Face swap failed during processing''))"

subsection \<open>Concrete environments\<close>

text \<open>
  Sample inputs for the properties below: an environment in which every request fails and
  no file exists, replies of the remote service, and a client whose counters are fresh.
\<close>

definition network_down :: js_error where
  "network_down = JsError ''FetchError'' ''request to the remote service failed''"

definition offline :: env where
  "offline =
     \<lparr> fetch_image = (\<lambda>url. Rejects network_down),
       existsSync = (\<lambda>p. False),
       readFileSync = (\<lambda>p. Rejects (JsError ''Error'' ''ENOENT: no such file or directory'')),
       extname_lower = (\<lambda>p. []),
       post_uploadImageUrl = (\<lambda>n ct. Rejects network_down),
       put_upload = (\<lambda>url b ct. Rejects network_down),
       post_face_swap = (\<lambda>src tgt. Rejects network_down),
       post_order_status = (\<lambda>oid k. Rejects network_down),
       stringify = (\<lambda>d. ''{}''),
       start_time = 1000,
       now_at = (\<lambda>k. 1000 + 3100 * int k),
       source_rejects_first = True \<rparr>"

definition plain_response :: "nat \<Rightarrow> string \<Rightarrow> response" where
  "plain_response code txt =
     \<lparr> http_status = code, statusText = txt, text_result = Resolves txt,
       json_result = Rejects (JsError ''SyntaxError'' ''Unexpected token in JSON''),
       buffer_result = Resolves [], content_type_header = None \<rparr>"

definition json_response :: "api_data \<Rightarrow> response" where
  "json_response d = (plain_response 200 ''OK'')\<lparr>json_result := Resolves (Some d)\<rparr>"

definition empty_body :: api_body where
  "empty_body =
     \<lparr> status = None, body_output = None, orderId = None, uploadImage = None,
       imageUrl = None, size = None \<rparr>"

definition success_envelope :: "api_body \<Rightarrow> response outcome" where
  "success_envelope b =
     Resolves (json_response \<lparr> statusCode = Some 2000, body = Some b, message = None \<rparr>)"

definition status_reply :: "string \<Rightarrow> string option \<Rightarrow> response outcome" where
  "status_reply s out = success_envelope (empty_body\<lparr>status := Some s, body_output := out\<rparr>)"

text \<open>
  A service that answers the first status request with HTTP 503, lets the second one fail
  in transport, and reports success from the third on.
\<close>

definition flaky :: env where
  "flaky =
     offline\<lparr>post_order_status :=
       (\<lambda>oid k. if k = 1 then Resolves (plain_response 503 ''Service Unavailable'')
                else if k = 2 then Rejects network_down
                else status_reply ''active'' (Some ''https://cdn.example/out.jpg''))\<rparr>"

text \<open>A job that is still queued at the first status request and has failed at the second.\<close>

definition failing :: env where
  "failing =
     offline\<lparr>post_order_status :=
       (\<lambda>oid k. if k = 1 then status_reply ''init'' None else status_reply ''failed'' None)\<rparr>"

text \<open>
  A service that answers the first status request with HTTP 503 and breaks the connection
  while the body is read, and reports success from the second request on.
\<close>

definition unreadable :: env where
  "unreadable =
     offline\<lparr>post_order_status :=
       (\<lambda>oid k. if k = 1
                then Resolves ((plain_response 503 ''Service Unavailable'')
                                 \<lparr>text_result := Rejects network_down\<rparr>)
                else status_reply ''active'' (Some ''https://cdn.example/out.jpg''))\<rparr>"

text \<open>
  A service that answers every status request with an error envelope (\<open>statusCode\<close> 5000)
  whose \<open>message\<close> is the text by which the \<open>catch\<close> block recognises a failed job.
\<close>

definition marked :: env where
  "marked =
     offline\<lparr>post_order_status :=
       (\<lambda>oid k. Resolves (json_response
                   \<lparr> statusCode = Some 5000, body = None,
                     message = Some ''Face swap failed during processing'' \<rparr>))\<rparr>"

text \<open>A service that keeps reporting a status the client does not know.\<close>

definition undecided :: env where
  "undecided = offline\<lparr>post_order_status := (\<lambda>oid k. status_reply ''processing'' None)\<rparr>"

text \<open>
  A service that accepts everything, and a file system with a JPEG file of 2048 bytes
  under every path except \<open>target.png\<close>, which is a PNG-named file of 500 zero bytes.
\<close>

definition working :: env where
  "working =
     offline\<lparr>
       existsSync := (\<lambda>p. True),
       readFileSync :=
         (\<lambda>p. if p = ''target.png'' then Resolves (replicate 500 0)
              else Resolves ([0xff, 0xd8, 0xff, 0xe0] @ replicate 2044 0)),
       extname_lower := (\<lambda>p. if p = ''target.png'' then ''.png'' else ''.jpg''),
       post_uploadImageUrl :=
         (\<lambda>n ct. success_envelope
                    (empty_body\<lparr>uploadImage := Some ''https://s3.example/put'',
                                imageUrl := Some ''https://img.example/source.jpg'',
                                size := Some n\<rparr>)),
       put_upload := (\<lambda>url b ct. Resolves (plain_response 200 ''OK'')),
       post_face_swap := (\<lambda>src tgt. success_envelope (empty_body\<lparr>orderId := Some ''order-1''\<rparr>)),
       post_order_status :=
         (\<lambda>oid k. status_reply ''active'' (Some ''https://cdn.example/out.jpg''))\<rparr>"

definition new_client :: client where
  "new_client = \<lparr> stats = fresh_stats, trace = [] \<rparr>"

section \<open>Basic facts\<close>

text \<open>The effect of the state updates on the fields of the client.\<close>

lemma emit_simps [simp]:
  "stats (emit ev c) = stats c"
  "trace (emit ev c) = trace c @ [(ev, stats c)]"
  by (simp_all add: emit_def)

lemma bump_simps [simp]:
  "trace (bump_failedSwaps c) = trace c"
  "successfulSwaps (stats (bump_failedSwaps c)) = successfulSwaps (stats c)"
  "failedSwaps (stats (bump_failedSwaps c)) = failedSwaps (stats c) + 1"
  by (simp_all add: bump_failedSwaps_def)

lemma bump_totalRequests_simps [simp]:
  "trace (bump_totalRequests c) = trace c"
  "stats (bump_totalRequests c) = (stats c)\<lparr>totalRequests := totalRequests (stats c) + 1\<rparr>"
  by (simp_all add: bump_totalRequests_def)

lemma bump_failedSwaps_total [simp]:
  "totalRequests (stats (bump_failedSwaps c)) = totalRequests (stats c)"
  "averageProcessingTime (stats (bump_failedSwaps c)) = averageProcessingTime (stats c)"
  by (simp_all add: bump_failedSwaps_def)

lemma stats_resetStats: "stats (resetStats c) = fresh_stats"
  by (simp add: resetStats_def)

text \<open>The numbers that occur in the messages of the sample runs.\<close>

lemma show_nat_5: "show_nat 5 = ''5''"
  by (simp add: show_nat.simps digit_def)

lemma show_nat_15: "show_nat 15 = ''15''"
  by (simp add: show_nat.simps digit_def)

lemma show_nat_500: "show_nat 500 = ''500''"
  by (simp add: show_nat.simps digit_def)

text \<open>The definitions of the sample environments.\<close>

lemmas fixture_defs = status_reply_def success_envelope_def json_response_def plain_response_def
      empty_body_def ok_def body_field_def new_client_def fresh_stats_def offline_def network_down_def

section \<open>Properties of the validator\<close>

lemma includes_sublist: "str_includes s t \<longleftrightarrow> sublist t s"
  by (induction s) (auto simp: sublist_Cons_right)

lemma errors_validateImageBuffer:
  "errors (validateImageBuffer b ct) =
     (if length b > MAX_FILE_SIZE then [Oversize (length b) MAX_FILE_SIZE] else [])
     @ (if length b < 1024 then [Undersize (length b)] else [])
     @ (if \<not> List.member SUPPORTED_FORMATS ct then [UnsupportedFormat ct] else [])
     @ (if \<not> isValidImageBuffer b ct then [CorruptData] else [])"
  by (simp add: validateImageBuffer_def Let_def)

lemma size_violations:
  "filter is_size_violation (errors (validateImageBuffer b ct)) =
     (if length b > MAX_FILE_SIZE then [Oversize (length b) MAX_FILE_SIZE] else [])
     @ (if length b < 1024 then [Undersize (length b)] else [])"
  by (simp add: errors_validateImageBuffer)

text \<open>
  C7. For every buffer \<open>b\<close> and every declared content type, the list of violations that
  \<open>_validateImageBuffer\<close> returns holds a size violation if and only if \<open>b\<close> is longer
  than \<open>5 * 1024 * 1024\<close> bytes or shorter than 1024 bytes. Neither the content of the
  buffer nor the content type matters; a buffer of 1024 to \<open>5 * 1024 * 1024\<close> bytes has no
  size violation.
\<close>

theorem size_violation_iff:
  "(\<exists>v. v \<in> set (errors (validateImageBuffer b ct)) \<and> is_size_violation v)
     \<longleftrightarrow> (length b > 5 * 1024 * 1024 \<or> length b < 1024)"
proof -
  have "(\<exists>v. v \<in> set (errors (validateImageBuffer b ct)) \<and> is_size_violation v)
          \<longleftrightarrow> filter is_size_violation (errors (validateImageBuffer b ct)) \<noteq> []"
    by (simp add: filter_empty_conv Bex_def)
  also have "\<dots> \<longleftrightarrow> (length b > MAX_FILE_SIZE \<or> length b < 1024)"
    by (simp add: size_violations)
  finally show ?thesis by (simp add: MAX_FILE_SIZE_def)
qed

theorem size_violation_iff_witness:
  "(\<exists>v. v \<in> set (errors (validateImageBuffer (replicate 500 0) ''image/png''))
         \<and> is_size_violation v)
   \<and> \<not> (\<exists>v. v \<in> set (errors (validateImageBuffer (replicate 2000 0) ''image/png''))
             \<and> is_size_violation v)"
  using size_violation_iff [of "replicate 500 0" "''image/png''"]
        size_violation_iff [of "replicate 2000 0" "''image/png''"]
  by simp

lemma four_bytes:
  assumes "\<not> length (b :: buffer) < 4"
  obtains b0 b1 b2 b3 r where "b = b0 # b1 # b2 # b3 # r"
proof -
  from assms have "Suc (Suc (Suc (Suc 0))) \<le> length b" by simp
  then show ?thesis using that by (auto simp: Suc_le_length_iff)
qed

lemma jpeg_declared_png:
  assumes "prefix [0xff, 0xd8, 0xff] b"
  shows "\<not> isValidImageBuffer b ''image/png''"
  using assms by (auto simp: isValidImageBuffer_def byte_at_def prefix_def)

lemma lenient_fallback:
  assumes "\<not> str_includes ct ''jpeg''" "\<not> str_includes ct ''jpg''" "\<not> str_includes ct ''png''"
  shows "isValidImageBuffer b ct
           \<longleftrightarrow> 4 \<le> length b
               \<and> (prefix [0xff, 0xd8, 0xff] b \<or> prefix [0x89, 0x50, 0x4e, 0x47] b)"
proof (cases "length b < 4")
  case True
  then show ?thesis by (simp add: isValidImageBuffer_def)
next
  case False
  then obtain b0 b1 b2 b3 r where b: "b = b0 # b1 # b2 # b3 # r" by (rule four_bytes)
  show ?thesis using assms by (simp add: b isValidImageBuffer_def byte_at_def)
qed

text \<open>
  C8, as the claim states it, fails: the three-byte buffer \<open>FF D8 FF\<close> carries the JPEG
  magic, its declared type \<open>image/gif\<close> has neither hint, and the signature check rejects
  it, because \<open>_isValidImageBuffer\<close> first rejects every buffer shorter than four bytes.
\<close>

theorem lenient_fallback_counterexample:
  "\<not> str_includes ''image/gif'' ''jpeg'' \<and> \<not> str_includes ''image/gif'' ''jpg''
   \<and> \<not> str_includes ''image/gif'' ''png''
   \<and> prefix [0xff, 0xd8, 0xff] [0xff, 0xd8, 0xff :: byte]
   \<and> \<not> isValidImageBuffer [0xff, 0xd8, 0xff] ''image/gif''"
  by (simp add: isValidImageBuffer_def)

text \<open>
  C8, amended. For every buffer whose first three bytes are \<open>FF D8 FF\<close> and whose declared
  content type is \<open>image/png\<close>, the signature check fails and validation reports the
  corrupt-data violation. For every buffer whose declared content type contains none of
  \<open>jpeg\<close>, \<open>jpg\<close> and \<open>png\<close>, the signature check accepts the buffer exactly when the
  buffer has at least four bytes and starts with the JPEG magic \<open>FF D8 FF\<close> or the PNG
  magic \<open>89 50 4E 47\<close>.
\<close>

theorem signature_check:
  "(prefix [0xff, 0xd8, 0xff] b \<longrightarrow>
      \<not> isValidImageBuffer b ''image/png''
      \<and> CorruptData \<in> set (errors (validateImageBuffer b ''image/png'')))
   \<and> (\<not> str_includes ct ''jpeg'' \<and> \<not> str_includes ct ''jpg'' \<and> \<not> str_includes ct ''png'' \<longrightarrow>
        (isValidImageBuffer b ct
           \<longleftrightarrow> 4 \<le> length b
               \<and> (prefix [0xff, 0xd8, 0xff] b \<or> prefix [0x89, 0x50, 0x4e, 0x47] b)))"
  by (simp add: jpeg_declared_png lenient_fallback errors_validateImageBuffer)

theorem signature_check_witness:
  "prefix [0xff, 0xd8, 0xff] [0xff, 0xd8, 0xff, 0xe0 :: byte]
   \<and> \<not> isValidImageBuffer [0xff, 0xd8, 0xff, 0xe0] ''image/png''
   \<and> CorruptData \<in> set (errors (validateImageBuffer [0xff, 0xd8, 0xff, 0xe0] ''image/png''))
   \<and> \<not> str_includes ''image/gif'' ''jpeg'' \<and> \<not> str_includes ''image/gif'' ''jpg''
   \<and> \<not> str_includes ''image/gif'' ''png''
   \<and> isValidImageBuffer [0xff, 0xd8, 0xff, 0xe0] ''image/gif''"
  using signature_check [of "[0xff, 0xd8, 0xff, 0xe0]" "''image/gif''"]
  by simp

section \<open>Properties of the poller\<close>

lemma poll_loop_next:
  assumes "k \<le> MAX_RETRIES" "poll_attempt e oid k c = (Normal, c')"
  shows "poll_loop e oid k c = poll_loop e oid (k + 1) c'"
  using assms by (subst poll_loop.simps) simp

lemma poll_loop_returned:
  assumes "k \<le> MAX_RETRIES" "poll_attempt e oid k c = (Returned v, c')"
  shows "poll_loop e oid k c = (Inr v, c')"
  using assms by (subst poll_loop.simps) simp

lemma poll_loop_thrown:
  assumes "k \<le> MAX_RETRIES" "poll_attempt e oid k c = (Thrown err, c')"
  shows "poll_loop e oid k c = (Inl err, c')"
  using assms by (subst poll_loop.simps) simp

lemma poll_loop_exhausted:
  assumes "MAX_RETRIES < k"
  shows "poll_loop e oid k c =
    (Inl (JsError ''Error'' ''Face swap did not complete within 5 attempts (15 seconds)''), bump_failedSwaps c)"
  using assms by (subst poll_loop.simps) (simp add: MAX_RETRIES_def POLL_INTERVAL_def show_nat_5 show_nat_15)

text \<open>The \<open>try\<close> block on a well-formed reply.\<close>

lemma envelope_SomeD:
  assumes "envelope rep = Some d"
  obtains r where "rep = Resolves r" "ok r" "json_result r = Resolves (Some d)" "statusCode d = Some 2000"
  using assms by (cases rep) (auto split: if_splits outcome.splits option.splits)

lemma poll_try_well_formed:
  assumes "envelope (post_order_status e oid k) = Some d"
  shows "poll_try e oid k c =
    (let c0 = emit (StatusCheck oid) c in
     if body_field status d = Some ''active'' \<and> truthy (body_field body_output d) then
        (Returned (the (body_field body_output d)),
         set_averageProcessingTime
           ((averageProcessingTime (stats c) * real (successfulSwaps (stats c))
              + real_of_int (now_at e k - start_time e)) / real (successfulSwaps (stats c) + 1))
           (bump_successfulSwaps c0))
     else if body_field status d = Some ''failed'' then
        (Thrown (JsError ''Error'' ''Face swap failed during processing. This may be due to unclear faces or incompatible images.''), bump_failedSwaps c0)
     else if body_field status d = Some ''init'' \<and> \<not> k < MAX_RETRIES then (Normal, c0)
     else (Normal, emit (Sleep 3000) c0))"
proof -
  from assms obtain r where r: "post_order_status e oid k = Resolves r" "ok r"
    "json_result r = Resolves (Some d)" "statusCode d = Some 2000"
    by (rule envelope_SomeD)
  show ?thesis
    by (simp add: poll_try_def r Let_def POLL_INTERVAL_def bump_successfulSwaps_def)
qed

lemma poll_catch_terminal:
  "poll_catch k (JsError ''Error'' ''Face swap failed during processing. This may be due to unclear faces or incompatible images.'') c
   = (Thrown (JsError ''Error'' ''Face swap failed during processing. This may be due to unclear faces or incompatible images.''), c)"
  by (simp add: poll_catch_def)

lemma poll_attempt_init:
  assumes "envelope (post_order_status e oid k) = Some d"
    and "body_field status d = Some ''init''"
  shows "poll_attempt e oid k c =
     (Normal, if k < MAX_RETRIES then emit (Sleep 3000) (emit (StatusCheck oid) c)
              else emit (StatusCheck oid) c)"
  using assms(2) by (simp add: poll_attempt_def poll_try_well_formed [OF assms(1)] Let_def)

lemma poll_attempt_unrecognized:
  assumes "envelope (post_order_status e oid k) = Some d"
    and "\<not> (body_field status d = Some ''active'' \<and> truthy (body_field body_output d))"
    and "body_field status d \<noteq> Some ''failed''" "body_field status d \<noteq> Some ''init''"
  shows "poll_attempt e oid k c = (Normal, emit (Sleep 3000) (emit (StatusCheck oid) c))"
  using assms(2-) by (simp add: poll_attempt_def poll_try_well_formed [OF assms(1)] Let_def)

lemma poll_loop_active:
  assumes "k \<le> MAX_RETRIES"
    and "envelope (post_order_status e oid k) = Some d"
    and "body_field status d = Some ''active''"
    and "body_field body_output d = Some url" "url \<noteq> []"
  shows "poll_loop e oid k c =
           (Inr url,
            c\<lparr>stats := (stats c)\<lparr>
                 successfulSwaps := successfulSwaps (stats c) + 1,
                 averageProcessingTime :=
                   (averageProcessingTime (stats c) * real (successfulSwaps (stats c) + 1 - 1)
                      + real_of_int (now_at e k - start_time e))
                   / real (successfulSwaps (stats c) + 1)\<rparr>,
              trace := trace c @ [(StatusCheck oid, stats c)]\<rparr>)"
proof -
  have "poll_attempt e oid k c =
           (Returned url,
            c\<lparr>stats := (stats c)\<lparr>
                 successfulSwaps := successfulSwaps (stats c) + 1,
                 averageProcessingTime :=
                   (averageProcessingTime (stats c) * real (successfulSwaps (stats c) + 1 - 1)
                      + real_of_int (now_at e k - start_time e))
                   / real (successfulSwaps (stats c) + 1)\<rparr>,
              trace := trace c @ [(StatusCheck oid, stats c)]\<rparr>)"
    using assms(3-5)
    by (simp add: poll_attempt_def poll_try_well_formed [OF assms(2)] Let_def
        set_averageProcessingTime_def bump_successfulSwaps_def emit_def)
  with assms(1) show ?thesis by (rule poll_loop_returned)
qed

text \<open>
  C1. For every order id: if each of the five status requests resolves with a well-formed
  reply whose status is \<open>init\<close>, then \<open>pollFaceSwapStatus\<close> makes exactly five attempts
  (\<open>MAX_RETRIES\<close>), sleeps the poll interval of 3000 ms after each of the first four and not
  after the fifth, then increments \<open>failedSwaps\<close> and throws the error that names the five
  attempts. No other counter changes.
\<close>

theorem poll_always_init:
  assumes "\<forall>k. 1 \<le> k \<and> k \<le> MAX_RETRIES \<longrightarrow>
             (\<exists>d. envelope (post_order_status e oid k) = Some d
                  \<and> body_field status d = Some ''init'')"
  shows "pollFaceSwapStatus e oid c =
           (Inl (JsError ''Error'' ''Face swap did not complete within 5 attempts (15 seconds)''),
            c\<lparr>stats := (stats c)\<lparr>failedSwaps := failedSwaps (stats c) + 1\<rparr>,
              trace := trace c @
                [(StatusCheck oid, stats c), (Sleep 3000, stats c),
                 (StatusCheck oid, stats c), (Sleep 3000, stats c),
                 (StatusCheck oid, stats c), (Sleep 3000, stats c),
                 (StatusCheck oid, stats c), (Sleep 3000, stats c),
                 (StatusCheck oid, stats c)]\<rparr>)"
proof -
  have m: "MAX_RETRIES = 5" by (simp add: MAX_RETRIES_def)
  have att: "poll_attempt e oid k c' =
     (Normal, if k < MAX_RETRIES then emit (Sleep 3000) (emit (StatusCheck oid) c')
              else emit (StatusCheck oid) c')" if "1 \<le> k" "k \<le> MAX_RETRIES" for k c'
    using assms that poll_attempt_init by blast
  have wait: "poll_loop e oid k c' = poll_loop e oid k' (emit (Sleep 3000) (emit (StatusCheck oid) c'))"
    if "1 \<le> k" "k < MAX_RETRIES" "k' = k + 1" for k k' c'
    using poll_loop_next [of k e oid c'] att [of k c'] that by simp
  have last: "poll_loop e oid 5 c' = poll_loop e oid 6 (emit (StatusCheck oid) c')" for c'
    using poll_loop_next [of 5 e oid c'] att [of 5 c'] by (simp add: m)
  define w where "w = (\<lambda>c'. emit (Sleep 3000) (emit (StatusCheck oid) c'))"
  have "pollFaceSwapStatus e oid c = poll_loop e oid 1 c"
    by (simp add: pollFaceSwapStatus_def)
  also have "\<dots> = poll_loop e oid 2 (w c)"
    unfolding w_def by (rule wait) (simp_all add: m)
  also have "\<dots> = poll_loop e oid 3 (w (w c))"
    unfolding w_def by (rule wait) (simp_all add: m)
  also have "\<dots> = poll_loop e oid 4 (w (w (w c)))"
    unfolding w_def by (rule wait) (simp_all add: m)
  also have "\<dots> = poll_loop e oid 5 (w (w (w (w c))))"
    unfolding w_def by (rule wait) (simp_all add: m)
  also have "\<dots> = poll_loop e oid 6 (emit (StatusCheck oid) (w (w (w (w c)))))"
    by (rule last)
  also have "\<dots> = (Inl (JsError ''Error'' ''Face swap did not complete within 5 attempts (15 seconds)''),
      bump_failedSwaps (emit (StatusCheck oid) (w (w (w (w c))))))"
    by (rule poll_loop_exhausted) (simp add: m)
  finally show ?thesis
    by (simp add: w_def bump_failedSwaps_def emit_def)
qed

theorem poll_always_init_witness:
  "pollFaceSwapStatus (offline\<lparr>post_order_status := (\<lambda>oid k. status_reply ''init'' None)\<rparr>)
      ''order-1'' new_client =
     (Inl (JsError ''Error'' ''Face swap did not complete within 5 attempts (15 seconds)''),
      \<lparr> stats = fresh_stats\<lparr>failedSwaps := 1\<rparr>,
        trace =
          [(StatusCheck ''order-1'', fresh_stats), (Sleep 3000, fresh_stats),
           (StatusCheck ''order-1'', fresh_stats), (Sleep 3000, fresh_stats),
           (StatusCheck ''order-1'', fresh_stats), (Sleep 3000, fresh_stats),
           (StatusCheck ''order-1'', fresh_stats), (Sleep 3000, fresh_stats),
           (StatusCheck ''order-1'', fresh_stats)] \<rparr>)"
  using poll_always_init
    [of "offline\<lparr>post_order_status := (\<lambda>oid k. status_reply ''init'' None)\<rparr>" "''order-1''"
        new_client]
  by (simp add: status_reply_def success_envelope_def json_response_def plain_response_def
      empty_body_def ok_def body_field_def new_client_def fresh_stats_def)

text \<open>
  C2. At every attempt whose well-formed reply has status \<open>active\<close> and a non-empty output,
  the poller returns that output at once (the attempt's status request is its last
  action), increments \<open>successfulSwaps\<close> to \<open>n\<close> and sets \<open>averageProcessingTime\<close> to
  \<open>(oldAvg * (n - 1) + elapsed) / n\<close>. Starting from fresh counters, the average is then
  the elapsed time of this one job.
\<close>

theorem poll_success:
  assumes "1 \<le> k" "k \<le> MAX_RETRIES"
    and "envelope (post_order_status e oid k) = Some d"
    and "body_field status d = Some ''active''"
    and "body_field body_output d = Some url" "url \<noteq> []"
  shows "poll_loop e oid k c =
           (Inr url,
            c\<lparr>stats := (stats c)\<lparr>
                 successfulSwaps := successfulSwaps (stats c) + 1,
                 averageProcessingTime :=
                   (averageProcessingTime (stats c) * real (successfulSwaps (stats c) + 1 - 1)
                      + real_of_int (now_at e k - start_time e))
                   / real (successfulSwaps (stats c) + 1)\<rparr>,
              trace := trace c @ [(StatusCheck oid, stats c)]\<rparr>)
         \<and> (stats c = fresh_stats \<longrightarrow>
              successfulSwaps (stats (snd (poll_loop e oid k c))) = 1
              \<and> averageProcessingTime (stats (snd (poll_loop e oid k c)))
                  = real_of_int (now_at e k - start_time e))"
  unfolding poll_loop_active [OF assms(2-6)] by (simp add: fresh_stats_def)

theorem poll_success_witness:
  "pollFaceSwapStatus (offline\<lparr>post_order_status := (\<lambda>oid k. status_reply ''active'' (Some ''https://cdn.example/out.jpg''))\<rparr>)
      ''order-1'' new_client =
     (Inr ''https://cdn.example/out.jpg'',
      \<lparr> stats = fresh_stats\<lparr>successfulSwaps := 1, averageProcessingTime := 3100\<rparr>,
        trace = [(StatusCheck ''order-1'', fresh_stats)] \<rparr>)"
  using poll_success
    [of 1 "offline\<lparr>post_order_status := (\<lambda>oid k. status_reply ''active'' (Some ''https://cdn.example/out.jpg''))\<rparr>" "''order-1''" "\<lparr> statusCode = Some 2000, body = Some (empty_body\<lparr>status := Some ''active'', body_output := Some ''https://cdn.example/out.jpg''\<rparr>), message = None \<rparr>"
       "''https://cdn.example/out.jpg''" new_client]
  by (simp add: status_reply_def success_envelope_def json_response_def plain_response_def
      empty_body_def ok_def body_field_def new_client_def fresh_stats_def MAX_RETRIES_def
      pollFaceSwapStatus_def offline_def)

subsection \<open>The outcome counters\<close>

lemma counts_step_simps [simp]:
  "counts_step Normal c c' \<longleftrightarrow> successfulSwaps (stats c') = successfulSwaps (stats c)
                  \<and> failedSwaps (stats c') = failedSwaps (stats c)"
  "counts_step (Returned v) c c' \<longleftrightarrow> successfulSwaps (stats c') = successfulSwaps (stats c) + 1
                  \<and> failedSwaps (stats c') = failedSwaps (stats c)"
  "counts_step (Thrown err) c c' \<longleftrightarrow> successfulSwaps (stats c') = successfulSwaps (stats c)
                  \<and> (failedSwaps (stats c') = failedSwaps (stats c)
                      \<or> failedSwaps (stats c') = failedSwaps (stats c) + 1
                         \<and> str_includes (err_message err) ''Face swap failed during processing'')"
  by (simp_all add: counts_step_def)

lemma poll_try_counts: "counts_step (fst (poll_try e oid k c)) c (snd (poll_try e oid k c))"
proof (cases "envelope (post_order_status e oid k)")
  case (Some d)
  show ?thesis
    by (simp add: poll_try_well_formed [OF Some] Let_def bump_successfulSwaps_def
      set_averageProcessingTime_def)
next
  case None
  show ?thesis
  proof (cases "post_order_status e oid k")
    case (Rejects err)
    then show ?thesis by (simp add: poll_try_def)
  next
    case (Resolves r)
    show ?thesis
    proof (cases "ok r")
      case False
      then show ?thesis using Resolves
        by (cases "text_result r") (simp_all add: poll_try_def Let_def)
    next
      case True
      show ?thesis
      proof (cases "json_result r")
        case (Rejects err)
        then show ?thesis using True Resolves by (simp add: poll_try_def)
      next
        case r2: (Resolves j)
        show ?thesis 
        proof (cases j)
          case None
          then show ?thesis using True Resolves r2 by (simp add: poll_try_def)
        next
          case (Some d)
          with None True Resolves r2 have "statusCode d \<noteq> Some 2000" by auto
          then show ?thesis using True Resolves r2 Some by (simp add: poll_try_def)
        qed
      qed
    qed
  qed
qed

lemma poll_catch_counts:
  assumes "counts_step (Thrown err) c c'"
  shows "counts_step (fst (poll_catch k err c')) c (snd (poll_catch k err c'))"
  using assms by (auto simp: poll_catch_def)

lemma poll_attempt_counts:
  "counts_step (fst (poll_attempt e oid k c)) c (snd (poll_attempt e oid k c))"
proof (cases "poll_try e oid k c")
  case (Pair r c')
  with poll_try_counts [of e oid k c] have s: "counts_step r c c'" by simp
  show ?thesis
  proof (cases r)
    case (Thrown err)
    with s Pair poll_catch_counts [of err c c' k] show ?thesis by (simp add: poll_attempt_def)
  qed (use s Pair in \<open>simp_all add: poll_attempt_def\<close>)
qed

lemma poll_loop_counts:
  "successfulSwaps (stats c) \<le> successfulSwaps (stats (snd (poll_loop e oid k c)))
   \<and> failedSwaps (stats c) \<le> failedSwaps (stats (snd (poll_loop e oid k c)))
   \<and> successfulSwaps (stats (snd (poll_loop e oid k c))) + failedSwaps (stats (snd (poll_loop e oid k c)))
       \<le> successfulSwaps (stats c) + failedSwaps (stats c) + 1"
proof (induction e oid k c rule: poll_loop.induct)
  case (1 e oid attempt c)
  show ?case
  proof (cases "attempt \<le> MAX_RETRIES")
    case False
    then have "poll_loop e oid attempt c =
    (Inl (JsError ''Error'' ''Face swap did not complete within 5 attempts (15 seconds)''), bump_failedSwaps c)"
      by (simp add: poll_loop_exhausted)
    then show ?thesis by simp
  next
    case True
    obtain r c' where a: "poll_attempt e oid attempt c = (r, c')" by (cases "poll_attempt e oid attempt c")
    with poll_attempt_counts [of e oid attempt c] have s: "counts_step r c c'" by simp
    show ?thesis
    proof (cases r)
      case Normal
      with a True have "poll_loop e oid attempt c = poll_loop e oid (attempt + 1) c'"
        by (simp add: poll_loop_next)
      moreover from "1.IH" True a Normal
      have "successfulSwaps (stats c') \<le> successfulSwaps (stats (snd (poll_loop e oid (attempt + 1) c')))
   \<and> failedSwaps (stats c') \<le> failedSwaps (stats (snd (poll_loop e oid (attempt + 1) c')))
   \<and> successfulSwaps (stats (snd (poll_loop e oid (attempt + 1) c'))) + failedSwaps (stats (snd (poll_loop e oid (attempt + 1) c')))
       \<le> successfulSwaps (stats c') + failedSwaps (stats c') + 1" by simp
      ultimately show ?thesis using s Normal by simp
    next
      case (Returned v)
      with a True have "poll_loop e oid attempt c = (Inr v, c')" by (simp add: poll_loop_returned)
      then show ?thesis using s Returned by simp
    next
      case (Thrown err)
      with a True have "poll_loop e oid attempt c = (Inl err, c')" by (simp add: poll_loop_thrown)
      then show ?thesis using s Thrown by auto
    qed
  qed
qed

text \<open>
  C10. A call of \<open>pollFaceSwapStatus\<close> never decreases \<open>successfulSwaps\<close> or
  \<open>failedSwaps\<close> and raises each by at most one; together they rise by at most one, so
  the increment of \<open>failedSwaps\<close> on a \<open>failed\<close> status and the increment after the loop
  never both happen in one call.
\<close>

theorem poll_counters:
  "successfulSwaps (stats c) \<le> successfulSwaps (stats (snd (pollFaceSwapStatus e oid c)))
   \<and> successfulSwaps (stats (snd (pollFaceSwapStatus e oid c))) \<le> successfulSwaps (stats c) + 1
   \<and> failedSwaps (stats c) \<le> failedSwaps (stats (snd (pollFaceSwapStatus e oid c)))
   \<and> failedSwaps (stats (snd (pollFaceSwapStatus e oid c))) \<le> failedSwaps (stats c) + 1
   \<and> successfulSwaps (stats (snd (pollFaceSwapStatus e oid c)))
         + failedSwaps (stats (snd (pollFaceSwapStatus e oid c)))
       \<le> successfulSwaps (stats c) + failedSwaps (stats c) + 1"
  using poll_loop_counts [of c e oid 1] by (simp add: pollFaceSwapStatus_def)

subsection \<open>Reaching an attempt\<close>

lemma after_attempts_Suc:
  assumes "after_attempts e oid n c = Some c'" "poll_attempt e oid (Suc n) c' = (Normal, c'')"
  shows "after_attempts e oid (Suc n) c = Some c''"
  using assms by simp

lemma after_attempts_SucD:
  assumes "after_attempts e oid (Suc n) c = Some c''"
  obtains c' where "after_attempts e oid n c = Some c'"
    "poll_attempt e oid (Suc n) c' = (Normal, c'')"
  using assms by (auto split: option.splits prod.splits completion.splits)

lemma poll_after_attempts:
  assumes "after_attempts e oid n c = Some c'" "n \<le> MAX_RETRIES"
  shows "pollFaceSwapStatus e oid c = poll_loop e oid (n + 1) c'"
  using assms
proof (induction n arbitrary: c')
  case 0
  then show ?case by (simp add: pollFaceSwapStatus_def)
next
  case (Suc n)
  from Suc.prems(1) obtain c0 where c0: "after_attempts e oid n c = Some c0"
    "poll_attempt e oid (Suc n) c0 = (Normal, c')"
    by (rule after_attempts_SucD)
  from Suc.IH [OF c0(1)] Suc.prems(2)
  have "pollFaceSwapStatus e oid c = poll_loop e oid (Suc n) c0" by simp
  also have "\<dots> = poll_loop e oid (Suc n + 1) c'"
    using Suc.prems(2) c0(2) by (rule poll_loop_next)
  finally show ?case .
qed

lemma after_attempts_counts:
  assumes "after_attempts e oid n c = Some c'"
  shows "successfulSwaps (stats c') = successfulSwaps (stats c)
         \<and> failedSwaps (stats c') = failedSwaps (stats c)"
  using assms
proof (induction n arbitrary: c')
  case 0
  then show ?case by simp
next
  case (Suc n)
  from Suc.prems obtain c0 where c0: "after_attempts e oid n c = Some c0"
    "poll_attempt e oid (Suc n) c0 = (Normal, c')"
    by (rule after_attempts_SucD)
  from poll_attempt_counts [of e oid "Suc n" c0] c0(2) Suc.IH [OF c0(1)]
  show ?case by simp
qed

lemma poll_loop_failed:
  assumes "k \<le> MAX_RETRIES"
    and "envelope (post_order_status e oid k) = Some d"
    and "body_field status d = Some ''failed''"
  shows "poll_loop e oid k c =
           (Inl (JsError ''Error''
              ''Face swap failed during processing. This may be due to unclear faces or incompatible images.''),
            bump_failedSwaps (emit (StatusCheck oid) c))"
proof -
  have "poll_attempt e oid k c =
          (Thrown (JsError ''Error''
              ''Face swap failed during processing. This may be due to unclear faces or incompatible images.''),
            bump_failedSwaps (emit (StatusCheck oid) c))"
    using assms(3) by (simp add: poll_attempt_def poll_try_well_formed [OF assms(2)] poll_catch_terminal)
  with assms(1) show ?thesis by (rule poll_loop_thrown)
qed

lemma failing_first:
  "after_attempts failing ''order-1'' 1 new_client =
     Some (emit (Sleep 3000) (emit (StatusCheck ''order-1'') new_client))"
proof -
  have "poll_attempt failing ''order-1'' (Suc 0) new_client =
     (Normal, emit (Sleep 3000) (emit (StatusCheck ''order-1'') new_client))"
    using poll_attempt_init [where e = failing and oid = "''order-1''" and k = "Suc 0"
        and c = new_client
        and d = "\<lparr> statusCode = Some 2000,
                   body = Some (empty_body\<lparr>status := Some ''init'', body_output := None\<rparr>),
                   message = None \<rparr>"]
    by (simp add: failing_def fixture_defs MAX_RETRIES_def)
  then show ?thesis by simp
qed

text \<open>
  C3. Whenever a call of \<open>pollFaceSwapStatus\<close> reaches an attempt, final or not, whose
  well-formed reply has status \<open>failed\<close>, the call ends there: its last action is the
  status request of that attempt, it increments \<open>failedSwaps\<close> exactly once over the whole
  call, leaves \<open>successfulSwaps\<close> alone and throws the processing-failure error. The
  \<open>catch\<close> block rethrows that error, so there is neither a sleep nor a further attempt.
\<close>

theorem pollFaceSwapStatus_failed:
  assumes "1 \<le> k" "k \<le> MAX_RETRIES"
    and "after_attempts e oid (k - 1) c = Some c'"
    and "envelope (post_order_status e oid k) = Some d"
    and "body_field status d = Some ''failed''"
  shows "pollFaceSwapStatus e oid c =
           (Inl (JsError ''Error''
              ''Face swap failed during processing. This may be due to unclear faces or incompatible images.''),
            bump_failedSwaps (emit (StatusCheck oid) c'))
         \<and> failedSwaps (stats (snd (pollFaceSwapStatus e oid c))) = failedSwaps (stats c) + 1
         \<and> successfulSwaps (stats (snd (pollFaceSwapStatus e oid c))) = successfulSwaps (stats c)
         \<and> trace (snd (pollFaceSwapStatus e oid c)) = trace c' @ [(StatusCheck oid, stats c')]"
proof -
  from assms(1,2) have "k - 1 \<le> MAX_RETRIES" "k - 1 + 1 = k" by simp_all
  with poll_after_attempts [OF assms(3)]
  have "pollFaceSwapStatus e oid c = poll_loop e oid k c'" by simp
  also have "\<dots> = (Inl (JsError ''Error''
              ''Face swap failed during processing. This may be due to unclear faces or incompatible images.''),
            bump_failedSwaps (emit (StatusCheck oid) c'))"
    using assms(2,4,5) by (rule poll_loop_failed)
  finally have *: "pollFaceSwapStatus e oid c = (Inl (JsError ''Error''
              ''Face swap failed during processing. This may be due to unclear faces or incompatible images.''),
            bump_failedSwaps (emit (StatusCheck oid) c'))" .
  show ?thesis
    unfolding * using after_attempts_counts [OF assms(3)] by simp
qed

theorem pollFaceSwapStatus_failed_witness:
  "pollFaceSwapStatus failing ''order-1'' new_client =
     (Inl (JsError ''Error''
              ''Face swap failed during processing. This may be due to unclear faces or incompatible images.''),
      \<lparr> stats = fresh_stats\<lparr>failedSwaps := 1\<rparr>,
        trace = [(StatusCheck ''order-1'', fresh_stats), (Sleep 3000, fresh_stats),
                 (StatusCheck ''order-1'', fresh_stats)] \<rparr>)"
  using pollFaceSwapStatus_failed
    [where k = 2 and e = failing and oid = "''order-1''" and c = new_client
       and c' = "emit (Sleep 3000) (emit (StatusCheck ''order-1'') new_client)"
       and d = "\<lparr> statusCode = Some 2000,
                  body = Some (empty_body\<lparr>status := Some ''failed'', body_output := None\<rparr>),
                  message = None \<rparr>"]
    failing_first
  by (simp add: failing_def fixture_defs MAX_RETRIES_def bump_failedSwaps_def emit_def)

subsection \<open>Waiting between attempts\<close>

lemma poll_try_http_failure:
  assumes "post_order_status e oid k = Resolves r" "\<not> ok r" "text_result r = Resolves errorText"
    and "k \<noteq> MAX_RETRIES"
  shows "poll_try e oid k c =
     (Normal, emit (Sleep (min (3000 * 1.5 ^ k) 10000)) (emit (StatusCheck oid) c))"
  using assms by (simp add: poll_try_def Let_def POLL_INTERVAL_def)

lemma poll_catch_retry:
  assumes "k \<noteq> MAX_RETRIES"
    and "\<not> str_includes (err_message err) ''Face swap failed during processing''"
  shows "poll_catch k err c = (Normal, emit (Sleep (min (3000 * 1.2 ^ k) 8000)) c)"
  using assms by (simp add: poll_catch_def Let_def POLL_INTERVAL_def)

lemma schedules_differ:
  assumes "1 \<le> k"
  shows "min (3000 * 1.2 ^ k) 8000 < (min (3000 * 1.5 ^ k) 10000 :: real)"
proof -
  from assms have "(1.2 :: real) ^ k < 1.5 ^ k"
    by (intro power_strict_mono) simp_all
  then show ?thesis by (simp add: min_def)
qed

text \<open>
  C4, as the claim states it, fails in two places. A response that is not successful and
  whose body cannot be read makes \<open>response.text()\<close> throw inside the \<open>try\<close> block, before
  the first schedule is computed; the \<open>catch\<close> block then waits on the second schedule:
  3600 ms after attempt 1, not 4500 ms. And an error envelope whose message contains the
  text \<open>Face swap failed during processing\<close> is taken by the \<open>catch\<close> block for the
  processing failure: it is rethrown after attempt 1 without any wait, although no job
  was reported as failed.
\<close>

theorem backoff_schedules_counterexample:
  "post_order_status unreadable ''order-1'' 1 =
     Resolves ((plain_response 503 ''Service Unavailable'')\<lparr>text_result := Rejects network_down\<rparr>)
   \<and> \<not> ok ((plain_response 503 ''Service Unavailable'')\<lparr>text_result := Rejects network_down\<rparr>)
   \<and> pollFaceSwapStatus unreadable ''order-1'' new_client =
       (Inr ''https://cdn.example/out.jpg'',
        \<lparr> stats = fresh_stats\<lparr>successfulSwaps := 1, averageProcessingTime := 6200\<rparr>,
          trace =
            [(StatusCheck ''order-1'', fresh_stats), (Sleep 3600, fresh_stats),
             (StatusCheck ''order-1'', fresh_stats)] \<rparr>)
   \<and> (3600 :: real) \<noteq> min (3000 * 1.5 ^ 1) 10000
   \<and> pollFaceSwapStatus marked ''order-1'' new_client =
       (Inl (JsError ''Error'' ''Status check error: Face swap failed during processing''),
        \<lparr> stats = fresh_stats, trace = [(StatusCheck ''order-1'', fresh_stats)] \<rparr>)"
proof -
  let ?c1 = "emit (Sleep 3600) (emit (StatusCheck ''order-1'') new_client)"
  have a1: "poll_attempt unreadable ''order-1'' 1 new_client = (Normal, ?c1)"
    by (simp add: poll_attempt_def poll_try_def poll_catch_def unreadable_def plain_response_def
        ok_def network_down_def MAX_RETRIES_def POLL_INTERVAL_def)
  have "pollFaceSwapStatus unreadable ''order-1'' new_client = poll_loop unreadable ''order-1'' 2 ?c1"
    unfolding pollFaceSwapStatus_def
    using poll_loop_next [OF _ a1] by (simp add: MAX_RETRIES_def numeral_2_eq_2)
  also have "\<dots> = (Inr ''https://cdn.example/out.jpg'',
       ?c1\<lparr>stats := (stats ?c1)\<lparr>
                 successfulSwaps := successfulSwaps (stats ?c1) + 1,
                 averageProcessingTime :=
                   (averageProcessingTime (stats ?c1) * real (successfulSwaps (stats ?c1) + 1 - 1)
                      + real_of_int (now_at unreadable 2 - start_time unreadable))
                   / real (successfulSwaps (stats ?c1) + 1)\<rparr>,
              trace := trace ?c1 @ [(StatusCheck ''order-1'', stats ?c1)]\<rparr>)"
    by (rule poll_loop_active [where
       d = "\<lparr> statusCode = Some 2000, body = Some (empty_body\<lparr>status := Some ''active'', body_output := Some ''https://cdn.example/out.jpg''\<rparr>), message = None \<rparr>"])
      (simp_all add: unreadable_def fixture_defs MAX_RETRIES_def)
  finally have u: "pollFaceSwapStatus unreadable ''order-1'' new_client =
       (Inr ''https://cdn.example/out.jpg'',
        \<lparr> stats = fresh_stats\<lparr>successfulSwaps := 1, averageProcessingTime := 6200\<rparr>,
          trace =
            [(StatusCheck ''order-1'', fresh_stats), (Sleep 3600, fresh_stats),
             (StatusCheck ''order-1'', fresh_stats)] \<rparr>)"
    by (simp add: unreadable_def fixture_defs emit_def)
  have a2: "poll_attempt marked ''order-1'' 1 new_client =
      (Thrown (JsError ''Error'' ''Status check error: Face swap failed during processing''),
       emit (StatusCheck ''order-1'') new_client)"
    by (simp add: poll_attempt_def poll_try_def poll_catch_def marked_def json_response_def
        plain_response_def ok_def)
  have m: "pollFaceSwapStatus marked ''order-1'' new_client =
       (Inl (JsError ''Error'' ''Status check error: Face swap failed during processing''),
        \<lparr> stats = fresh_stats, trace = [(StatusCheck ''order-1'', fresh_stats)] \<rparr>)"
    unfolding pollFaceSwapStatus_def
    using poll_loop_thrown [OF _ a2] by (simp add: MAX_RETRIES_def emit_def new_client_def)
  show ?thesis
    using u m by (simp add: unreadable_def plain_response_def ok_def)
qed

text \<open>
  C4, amended. The loop has two backoff schedules. When a call reaches an attempt that is
  not the last, and the response is not successful and its body is read without an error,
  the poller sleeps \<open>min (3000 * 1.5 ^ attempt) 10000\<close> ms and goes on to the next
  attempt. When the \<open>try\<close> block of such an attempt throws an error whose message does
  not contain \<open>Face swap failed during processing\<close>, the poller sleeps
  \<open>min (3000 * 1.2 ^ attempt) 8000\<close> ms and goes on to the next attempt; a response that
  is not successful and whose body cannot be read throws in this way. From attempt 1 on
  the second waiting time is strictly smaller than the first, so neither schedule ever
  stands in for the other.
\<close>

theorem backoff_schedules:
  "(1 \<le> k \<and> k < MAX_RETRIES \<and> after_attempts e oid (k - 1) c = Some c'
      \<and> post_order_status e oid k = Resolves r \<and> \<not> ok r
      \<and> text_result r = Resolves errorText \<longrightarrow>
      after_attempts e oid k c =
        Some (emit (Sleep (min (3000 * 1.5 ^ k) 10000)) (emit (StatusCheck oid) c'))
      \<and> pollFaceSwapStatus e oid c =
          poll_loop e oid (k + 1)
            (emit (Sleep (min (3000 * 1.5 ^ k) 10000)) (emit (StatusCheck oid) c')))
   \<and> (1 \<le> k \<and> k < MAX_RETRIES \<and> after_attempts e oid (k - 1) c = Some c'
        \<and> poll_try e oid k c' = (Thrown err, c'')
        \<and> \<not> str_includes (err_message err) ''Face swap failed during processing'' \<longrightarrow>
        after_attempts e oid k c = Some (emit (Sleep (min (3000 * 1.2 ^ k) 8000)) c'')
        \<and> pollFaceSwapStatus e oid c =
            poll_loop e oid (k + 1) (emit (Sleep (min (3000 * 1.2 ^ k) 8000)) c''))
   \<and> (post_order_status e oid k = Resolves r \<and> \<not> ok r \<and> text_result r = Rejects err \<longrightarrow>
        poll_try e oid k c' = (Thrown err, emit (StatusCheck oid) c'))
   \<and> (1 \<le> k \<longrightarrow> min (3000 * 1.2 ^ k) 8000 < (min (3000 * 1.5 ^ k) 10000 :: real))"
proof (intro conjI impI)
  assume a: "1 \<le> k \<and> k < MAX_RETRIES \<and> after_attempts e oid (k - 1) c = Some c'
      \<and> post_order_status e oid k = Resolves r \<and> \<not> ok r
      \<and> text_result r = Resolves errorText"
  then have k: "Suc (k - 1) = k" "k \<le> MAX_RETRIES" by simp_all
  from a have "poll_attempt e oid k c' =
     (Normal, emit (Sleep (min (3000 * 1.5 ^ k) 10000)) (emit (StatusCheck oid) c'))"
    by (simp add: poll_attempt_def poll_try_http_failure [of e oid k r errorText])
  with a k after_attempts_Suc [of e oid "k - 1" c c']
  show s: "after_attempts e oid k c =
        Some (emit (Sleep (min (3000 * 1.5 ^ k) 10000)) (emit (StatusCheck oid) c'))"
    by simp
  show "pollFaceSwapStatus e oid c =
          poll_loop e oid (k + 1)
            (emit (Sleep (min (3000 * 1.5 ^ k) 10000)) (emit (StatusCheck oid) c'))"
    using s k(2) by (rule poll_after_attempts)
next
  assume a: "1 \<le> k \<and> k < MAX_RETRIES \<and> after_attempts e oid (k - 1) c = Some c'
        \<and> poll_try e oid k c' = (Thrown err, c'')
        \<and> \<not> str_includes (err_message err) ''Face swap failed during processing''"
  then have k: "Suc (k - 1) = k" "k \<le> MAX_RETRIES" by simp_all
  from a have "poll_attempt e oid k c' = (Normal, emit (Sleep (min (3000 * 1.2 ^ k) 8000)) c'')"
    by (simp add: poll_attempt_def poll_catch_retry)
  with a k after_attempts_Suc [of e oid "k - 1" c c']
  show s: "after_attempts e oid k c = Some (emit (Sleep (min (3000 * 1.2 ^ k) 8000)) c'')"
    by simp
  show "pollFaceSwapStatus e oid c =
            poll_loop e oid (k + 1) (emit (Sleep (min (3000 * 1.2 ^ k) 8000)) c'')"
    using s k(2) by (rule poll_after_attempts)
next
  assume "post_order_status e oid k = Resolves r \<and> \<not> ok r \<and> text_result r = Rejects err"
  then show "poll_try e oid k c' = (Thrown err, emit (StatusCheck oid) c')"
    by (simp add: poll_try_def)
next
  assume "1 \<le> k"
  then show "min (3000 * 1.2 ^ k) 8000 < (min (3000 * 1.5 ^ k) 10000 :: real)"
    by (rule schedules_differ)
qed

theorem backoff_schedules_witness:
  "pollFaceSwapStatus flaky ''order-1'' new_client =
     (Inr ''https://cdn.example/out.jpg'',
      \<lparr> stats = fresh_stats\<lparr>successfulSwaps := 1, averageProcessingTime := 9300\<rparr>,
        trace =
          [(StatusCheck ''order-1'', fresh_stats), (Sleep 4500, fresh_stats),
           (StatusCheck ''order-1'', fresh_stats), (Sleep 4320, fresh_stats),
           (StatusCheck ''order-1'', fresh_stats)] \<rparr>)"
proof -
  let ?c1 = "emit (Sleep 4500) (emit (StatusCheck ''order-1'') new_client)"
  let ?c2 = "emit (Sleep 4320) (emit (StatusCheck ''order-1'') ?c1)"
  have 1: "after_attempts flaky ''order-1'' 1 new_client = Some ?c1"
    using backoff_schedules [where k = 1 and e = flaky and oid = "''order-1''"
        and r = "plain_response 503 ''Service Unavailable''"
        and errorText = "''Service Unavailable''" and c = new_client and c' = new_client]
    by (simp add: flaky_def plain_response_def ok_def MAX_RETRIES_def)
  have t: "poll_try flaky ''order-1'' 2 ?c1 = (Thrown network_down, emit (StatusCheck ''order-1'') ?c1)"
    by (simp add: poll_try_def flaky_def)
  have 2: "pollFaceSwapStatus flaky ''order-1'' new_client = poll_loop flaky ''order-1'' 3 ?c2"
    using backoff_schedules [where k = 2 and e = flaky and oid = "''order-1''"
        and c = new_client and c' = ?c1 and err = network_down
        and c'' = "emit (StatusCheck ''order-1'') ?c1"] 1 t
    by (simp add: network_down_def MAX_RETRIES_def power2_eq_square)
  have 3: "poll_loop flaky ''order-1'' 3 c =
      (Inr ''https://cdn.example/out.jpg'',
       c\<lparr>stats := (stats c)\<lparr>
                 successfulSwaps := successfulSwaps (stats c) + 1,
                 averageProcessingTime :=
                   (averageProcessingTime (stats c) * real (successfulSwaps (stats c) + 1 - 1)
                      + real_of_int (now_at flaky 3 - start_time flaky))
                   / real (successfulSwaps (stats c) + 1)\<rparr>,
              trace := trace c @ [(StatusCheck ''order-1'', stats c)]\<rparr>)" for c
    using poll_loop_active [where k = 3 and e = flaky and oid = "''order-1''" and c = c
       and url = "''https://cdn.example/out.jpg''"
       and d = "\<lparr> statusCode = Some 2000, body = Some (empty_body\<lparr>status := Some ''active'', body_output := Some ''https://cdn.example/out.jpg''\<rparr>), message = None \<rparr>"]
    by (simp add: flaky_def fixture_defs MAX_RETRIES_def)
  show ?thesis
    unfolding 2 3
    by (simp add: flaky_def fixture_defs emit_def)
qed

lemma poll_unrecognized_next:
  assumes "k \<le> MAX_RETRIES" "envelope (post_order_status e oid k) = Some d"
    and "\<not> (body_field status d = Some ''active'' \<and> truthy (body_field body_output d))"
    and "body_field status d \<noteq> Some ''failed''" "body_field status d \<noteq> Some ''init''"
  shows "poll_loop e oid k c = poll_loop e oid (k + 1) (emit (Sleep 3000) (emit (StatusCheck oid) c))"
  using assms(1) poll_attempt_unrecognized [OF assms(2-5)] by (rule poll_loop_next)

text \<open>
  C9 does not hold of the code. On a well-formed reply with status \<open>init\<close> the poller
  sleeps only when \<open>attempt < MAX_RETRIES\<close>; the branch for every other status lacks that
  guard. With a service that always reports the unknown status \<open>processing\<close>, the poller
  sleeps 3000 ms also after the fifth and last attempt, and only then counts the failure
  and throws.
\<close>

theorem unrecognized_status_final_sleep:
  "pollFaceSwapStatus undecided ''order-1'' new_client =
     (Inl (JsError ''Error'' ''Face swap did not complete within 5 attempts (15 seconds)''),
      \<lparr> stats = fresh_stats\<lparr>failedSwaps := 1\<rparr>,
        trace =
          [(StatusCheck ''order-1'', fresh_stats), (Sleep 3000, fresh_stats),
           (StatusCheck ''order-1'', fresh_stats), (Sleep 3000, fresh_stats),
           (StatusCheck ''order-1'', fresh_stats), (Sleep 3000, fresh_stats),
           (StatusCheck ''order-1'', fresh_stats), (Sleep 3000, fresh_stats),
           (StatusCheck ''order-1'', fresh_stats), (Sleep 3000, fresh_stats)] \<rparr>)"
proof -
  define w where "w = (\<lambda>c. emit (Sleep 3000) (emit (StatusCheck ''order-1'') c))"
  have wait: "poll_loop undecided ''order-1'' k c = poll_loop undecided ''order-1'' k' (w c)"
    if "k \<le> 5" "k' = k + 1" for k k' c
    unfolding w_def that(2)
    by (rule poll_unrecognized_next
          [where d = "\<lparr> statusCode = Some 2000,
                         body = Some (empty_body\<lparr>status := Some ''processing'', body_output := None\<rparr>),
                         message = None \<rparr>"])
       (use that in \<open>simp_all add: undecided_def fixture_defs MAX_RETRIES_def\<close>)
  have "pollFaceSwapStatus undecided ''order-1'' new_client = poll_loop undecided ''order-1'' 1 new_client"
    by (simp add: pollFaceSwapStatus_def)
  also have "\<dots> = poll_loop undecided ''order-1'' 2 (w new_client)"
    by (rule wait) simp_all
  also have "\<dots> = poll_loop undecided ''order-1'' 3 (w (w new_client))"
    by (rule wait) simp_all
  also have "\<dots> = poll_loop undecided ''order-1'' 4 (w (w (w new_client)))"
    by (rule wait) simp_all
  also have "\<dots> = poll_loop undecided ''order-1'' 5 (w (w (w (w new_client))))"
    by (rule wait) simp_all
  also have "\<dots> = poll_loop undecided ''order-1'' 6 (w (w (w (w (w new_client)))))"
    by (rule wait) simp_all
  also have "\<dots> = (Inl (JsError ''Error'' ''Face swap did not complete within 5 attempts (15 seconds)''),
      bump_failedSwaps (w (w (w (w (w new_client))))))"
    by (rule poll_loop_exhausted) (simp add: MAX_RETRIES_def)
  finally show ?thesis
    by (simp add: w_def bump_failedSwaps_def emit_def new_client_def fresh_stats_def)
qed

section \<open>Properties of the submission\<close>

lemma requestFaceSwap_unfold:
  "requestFaceSwap e src tgt c =
     (case requestFaceSwap_try e src tgt of
        Inr oid \<Rightarrow> (Inr oid, emit (Submit src tgt) (bump_totalRequests c))
      | Inl err \<Rightarrow>
          (Inl (if err_name err = ''AbortError''
                then JsError ''Error'' ''Face swap request timed out. Please try again.''
                else err),
           bump_failedSwaps (emit (Submit src tgt) (bump_totalRequests c))))"
  by (simp add: requestFaceSwap_def Let_def split: sum.split)

lemma requestFaceSwap_try_Inr:
  assumes "requestFaceSwap_try e src tgt = Inr oid"
  shows "\<exists>d. envelope (post_face_swap e src tgt) = Some d \<and> body_field orderId d = Some oid
             \<and> oid \<noteq> []"
proof (cases "post_face_swap e src tgt")
  case (Rejects err)
  with assms show ?thesis by (simp add: requestFaceSwap_try_def)
next
  case (Resolves r)
  show ?thesis
  proof (cases "ok r")
    case False
    with assms Resolves show ?thesis
      by (cases "text_result r") (simp_all add: requestFaceSwap_try_def split: if_splits)
  next
    case True
    show ?thesis
    proof (cases "json_result r")
      case (Rejects err)
      with assms Resolves True show ?thesis by (simp add: requestFaceSwap_try_def)
    next
      case j: (Resolves v)
      show ?thesis
      proof (cases v)
        case None
        with assms Resolves True j show ?thesis by (simp add: requestFaceSwap_try_def)
      next
        case (Some d)
        with assms Resolves True j show ?thesis
          by (cases "body_field orderId d") (simp_all add: requestFaceSwap_try_def split: if_splits)
      qed
    qed
  qed
qed

lemma requestFaceSwap_try_not_ok:
  assumes "post_face_swap e src tgt = Resolves r" "\<not> ok r"
  shows "isl (requestFaceSwap_try e src tgt)"
  using assms by (cases "text_result r") (simp_all add: requestFaceSwap_try_def)

lemma requestFaceSwap_try_no_order:
  assumes "envelope (post_face_swap e src tgt) = Some d" "\<not> truthy (body_field orderId d)"
  shows "requestFaceSwap_try e src tgt =
           Inl (JsError ''Error'' (''Face swap failed: '' @ stringify e (Some d)))"
proof -
  from assms(1) obtain r where "post_face_swap e src tgt = Resolves r" "ok r"
    "json_result r = Resolves (Some d)" "statusCode d = Some 2000"
    by (rule envelope_SomeD)
  with assms(2) show ?thesis by (simp add: requestFaceSwap_try_def)
qed

text \<open>
  C5. Every call of \<open>requestFaceSwap\<close> increments \<open>totalRequests\<close> by one, and does so
  before it sends the submission request: the trace entry of the request carries the
  incremented counter. If the call fails, for whatever reason, \<open>failedSwaps\<close> rises by
  one and the error reaches the caller; a response that is not 2xx fails, a request that
  runs into the timeout fails with the timeout error, and a success envelope without an
  order identifier fails with the invalid-response error. If the call succeeds it returns
  the order identifier of the envelope and \<open>failedSwaps\<close> is unchanged.
\<close>

theorem request_counters:
  assumes "requestFaceSwap e src tgt c = (res, c')"
  shows "totalRequests (stats c') = totalRequests (stats c) + 1
    \<and> trace c' = trace c
         @ [(Submit src tgt, (stats c)\<lparr>totalRequests := totalRequests (stats c) + 1\<rparr>)]
    \<and> successfulSwaps (stats c') = successfulSwaps (stats c)
    \<and> averageProcessingTime (stats c') = averageProcessingTime (stats c)
    \<and> (isl res \<longrightarrow> failedSwaps (stats c') = failedSwaps (stats c) + 1)
    \<and> (\<forall>oid. res = Inr oid \<longrightarrow>
          failedSwaps (stats c') = failedSwaps (stats c)
          \<and> (\<exists>d. envelope (post_face_swap e src tgt) = Some d
                 \<and> body_field orderId d = Some oid))
    \<and> (\<forall>r. post_face_swap e src tgt = Resolves r \<and> \<not> ok r \<longrightarrow> isl res)
    \<and> (\<forall>err. post_face_swap e src tgt = Rejects err \<and> err_name err = ''AbortError'' \<longrightarrow>
          res = Inl (JsError ''Error'' ''Face swap request timed out. Please try again.''))
    \<and> (\<forall>d. envelope (post_face_swap e src tgt) = Some d \<and> \<not> truthy (body_field orderId d) \<longrightarrow>
          res = Inl (JsError ''Error'' (''Face swap failed: '' @ stringify e (Some d))))"
proof (cases "requestFaceSwap_try e src tgt")
  case (Inr oid)
  with assms have res: "res = Inr oid" and c': "c' = emit (Submit src tgt) (bump_totalRequests c)"
    by (simp_all add: requestFaceSwap_unfold)
  have 1: "\<not> (post_face_swap e src tgt = Resolves r \<and> \<not> ok r)" for r
    using requestFaceSwap_try_not_ok [of e src tgt r] Inr by auto
  have 2: "\<not> (post_face_swap e src tgt = Rejects err)" for err
    using Inr by (auto simp: requestFaceSwap_try_def)
  have 3: "\<not> (envelope (post_face_swap e src tgt) = Some d \<and> \<not> truthy (body_field orderId d))" for d
    using requestFaceSwap_try_no_order [of e src tgt d] Inr by auto
  from requestFaceSwap_try_Inr [OF Inr] 1 2 3 show ?thesis
    by (simp add: res c' emit_def bump_totalRequests_def) blast
next
  case (Inl err)
  with assms have res: "res = Inl (if err_name err = ''AbortError''
                then JsError ''Error'' ''Face swap request timed out. Please try again.''
                else err)"
    and c': "c' = bump_failedSwaps (emit (Submit src tgt) (bump_totalRequests c))"
    by (simp_all add: requestFaceSwap_unfold)
  have 2: "res = Inl (JsError ''Error'' ''Face swap request timed out. Please try again.'')"
    if "post_face_swap e src tgt = Rejects err'" "err_name err' = ''AbortError''" for err'
  proof -
    from that(1) Inl have "err' = err" by (simp add: requestFaceSwap_try_def)
    with that(2) show ?thesis by (simp add: res)
  qed
  have 3: "res = Inl (JsError ''Error'' (''Face swap failed: '' @ stringify e (Some d)))"
    if "envelope (post_face_swap e src tgt) = Some d" "\<not> truthy (body_field orderId d)" for d
  proof -
    from requestFaceSwap_try_no_order [OF that] Inl
    have "err = JsError ''Error'' (''Face swap failed: '' @ stringify e (Some d))" by simp
    then show ?thesis by (simp add: res)
  qed
  have 4: "failedSwaps (stats c') = failedSwaps (stats c) + 1" "isl res" "\<And>oid. res \<noteq> Inr oid"
    "totalRequests (stats c') = totalRequests (stats c) + 1"
    "trace c' = trace c
         @ [(Submit src tgt, (stats c)\<lparr>totalRequests := totalRequests (stats c) + 1\<rparr>)]"
    "successfulSwaps (stats c') = successfulSwaps (stats c)"
    "averageProcessingTime (stats c') = averageProcessingTime (stats c)"
    by (simp_all add: res c')
  show ?thesis
    using 2 3 4 by blast
qed

theorem request_counters_witness:
  "requestFaceSwap working ''a'' ''b'' new_client =
     (Inr ''order-1'',
      \<lparr> stats = fresh_stats\<lparr>totalRequests := 1\<rparr>,
        trace = [(Submit ''a'' ''b'', fresh_stats\<lparr>totalRequests := 1\<rparr>)] \<rparr>)
   \<and> requestFaceSwap offline ''a'' ''b'' new_client =
     (Inl network_down,
      \<lparr> stats = fresh_stats\<lparr>totalRequests := 1, failedSwaps := 1\<rparr>,
        trace = [(Submit ''a'' ''b'', fresh_stats\<lparr>totalRequests := 1\<rparr>)] \<rparr>)"
proof -
  obtain res c' where ok: "requestFaceSwap working ''a'' ''b'' new_client = (res, c')"
    by (cases "requestFaceSwap working ''a'' ''b'' new_client")
  obtain res2 c2 where ko: "requestFaceSwap offline ''a'' ''b'' new_client = (res2, c2)"
    by (cases "requestFaceSwap offline ''a'' ''b'' new_client")
  have r: "res = Inr ''order-1''" "res2 = Inl network_down"
    using ok ko
    by (simp_all add: requestFaceSwap_unfold requestFaceSwap_try_def working_def fixture_defs)
  have "c' = \<lparr> stats = fresh_stats\<lparr>totalRequests := 1\<rparr>,
        trace = [(Submit ''a'' ''b'', fresh_stats\<lparr>totalRequests := 1\<rparr>)] \<rparr>"
    using request_counters [OF ok] r
    by (cases c'; cases "stats c'") (simp add: new_client_def fresh_stats_def)
  moreover have "c2 = \<lparr> stats = fresh_stats\<lparr>totalRequests := 1, failedSwaps := 1\<rparr>,
        trace = [(Submit ''a'' ''b'', fresh_stats\<lparr>totalRequests := 1\<rparr>)] \<rparr>"
    using request_counters [OF ko] r
    by (cases c2; cases "stats c2") (simp add: new_client_def fresh_stats_def)
  ultimately show ?thesis using ok ko r by simp
qed

section \<open>Properties of the orchestration\<close>

lemma target_rejected:
  "processImage working ''target.png'' False =
     Inl (JsError ''Error''
       ''Image validation failed: Image size 500 bytes is too small. Minimum size is 1KB, Invalid image file format or corrupted image data'')"
  by (simp add: processImage_def acquire_def working_def offline_def getUploadUrl_def
      getUploadUrl_try_def validateImageBuffer_def isValidImageBuffer_def byte_at_def
      MAX_FILE_SIZE_def SUPPORTED_FORMATS_def show_nat_500)

lemma source_accepted:
  "processImage working ''source.jpg'' False = Inr ''https://img.example/source.jpg''"
  by (simp add: processImage_def acquire_def working_def fixture_defs getUploadUrl_def
      getUploadUrl_try_def validateImageBuffer_def isValidImageBuffer_def byte_at_def
      MAX_FILE_SIZE_def SUPPORTED_FORMATS_def uploadImageToS3_def uploadImageToS3_try_def)

text \<open>
  C6. Whenever at least one of the two image pipelines of \<open>performFaceSwap\<close> fails,
  \<open>performFaceSwap\<close> fails with the error of a failed pipeline and leaves the client as
  it was: \<open>totalRequests\<close>, \<open>successfulSwaps\<close>, \<open>failedSwaps\<close> and
  \<open>averageProcessingTime\<close> are unchanged and the trace has no new entry, so no submission
  request was made (\<open>requestFaceSwap\<close> would have incremented \<open>totalRequests\<close>).
\<close>

theorem pipeline_failure_aborts:
  assumes "isl (processImage e sourceImage sourceIsUrl)
           \<or> isl (processImage e targetImage targetIsUrl)"
  shows "\<exists>err. performFaceSwap e sourceImage targetImage sourceIsUrl targetIsUrl c = (Inl err, c)
               \<and> (processImage e sourceImage sourceIsUrl = Inl err
                    \<or> processImage e targetImage targetIsUrl = Inl err)"
  using assms
  by (cases "processImage e sourceImage sourceIsUrl";
      cases "processImage e targetImage targetIsUrl")
     (simp_all add: performFaceSwap_def)

theorem pipeline_failure_aborts_witness:
  "processImage working ''source.jpg'' False = Inr ''https://img.example/source.jpg''
   \<and> isl (processImage working ''target.png'' False)
   \<and> performFaceSwap working ''source.jpg'' ''target.png'' False False new_client =
     (Inl (JsError ''Error''
       ''Image validation failed: Image size 500 bytes is too small. Minimum size is 1KB, Invalid image file format or corrupted image data''),
      new_client)"
  using pipeline_failure_aborts [where e = working and sourceImage = "''source.jpg''"
      and sourceIsUrl = False and targetImage = "''target.png''" and targetIsUrl = False
      and c = new_client]
  by (simp add: target_rejected source_accepted)

text \<open>
  The scenario in which everything succeeds: both images are uploaded, the submission
  returns an order id and the first status request reports \<open>active\<close>.
\<close>

lemma end_to_end:
  "performFaceSwap working ''source.jpg'' ''other.jpg'' False False new_client =
     (Inr ''https://cdn.example/out.jpg'',
      \<lparr> stats = fresh_stats\<lparr>totalRequests := 1, successfulSwaps := 1, averageProcessingTime := 3100\<rparr>,
        trace = [(Submit ''https://img.example/source.jpg'' ''https://img.example/source.jpg'', fresh_stats\<lparr>totalRequests := 1\<rparr>),
                 (StatusCheck ''order-1'', fresh_stats\<lparr>totalRequests := 1\<rparr>)] \<rparr>)"
proof -
  have o: "processImage working ''other.jpg'' False = Inr ''https://img.example/source.jpg''"
  by (simp add: processImage_def acquire_def working_def fixture_defs getUploadUrl_def
      getUploadUrl_try_def validateImageBuffer_def isValidImageBuffer_def byte_at_def
      MAX_FILE_SIZE_def SUPPORTED_FORMATS_def uploadImageToS3_def uploadImageToS3_try_def)
  have r: "requestFaceSwap working a b new_client = (Inr ''order-1'',
      \<lparr> stats = fresh_stats\<lparr>totalRequests := 1\<rparr>,
        trace = [(Submit a b, fresh_stats\<lparr>totalRequests := 1\<rparr>)] \<rparr>)" for a b
    by (simp add: requestFaceSwap_unfold requestFaceSwap_try_def working_def fixture_defs emit_def bump_totalRequests_def)
  have p: "pollFaceSwapStatus working ''order-1'' c = (Inr ''https://cdn.example/out.jpg'',
      c\<lparr>stats := (stats c)\<lparr>
                 successfulSwaps := successfulSwaps (stats c) + 1,
                 averageProcessingTime :=
                   (averageProcessingTime (stats c) * real (successfulSwaps (stats c) + 1 - 1)
                      + real_of_int (now_at working 1 - start_time working))
                   / real (successfulSwaps (stats c) + 1)\<rparr>,
              trace := trace c @ [(StatusCheck ''order-1'', stats c)]\<rparr>)" for c
    unfolding pollFaceSwapStatus_def
    using poll_loop_active [where k = 1 and e = working and oid = "''order-1''" and c = c
       and url = "''https://cdn.example/out.jpg''" 
       and d = "\<lparr> statusCode = Some 2000, body = Some (empty_body\<lparr>status := Some ''active'', body_output := Some ''https://cdn.example/out.jpg''\<rparr>), message = None \<rparr>"]
    by (simp add: working_def fixture_defs MAX_RETRIES_def)
  show ?thesis
    by (simp add: performFaceSwap_def source_accepted o r p) (simp add: working_def fixture_defs)
qed

end
